theory Spec2Isabelle
  imports Complex_Main
begin

section \<open>The distillation training script \<^verbatim>\<open>StudentGaussianIAF/train.py\<close>\<close>

text \<open>
  The script is one straight-line program: it parses the command line, builds the three
  networks, the optimizer, the iterators, the updater and the trainer, optionally loads a
  snapshot, and runs the trainer. The embedding follows the script section by section
  (its own comments: Model, Optimizer, Iterator, Updater, Trainer, Extensions).

  The objects of the chainer library that the script creates are records; the library
  operations the script calls are functions on these records, written after the behaviour
  of the chainer release the script was written for. An array is the list of its entries,
  each the real number that the floating-point entry stands for. What the library computes
  on arrays in floating point (gradients, the clipping hook's norm and scaling, Adam's
  update) is not fixed here: it is a parameter of the run (\<open>numerics\<close> below). The
  scalars that the script and the extensions compute themselves (line 83, the annealing)
  are real numbers, computed without rounding.
\<close>

subsection \<open>Errors\<close>

datatype error =
    SystemExit
  | FileNotFoundError
  | KeyError
  | ZeroDivisionError
  | IndexError
  | AttributeError
  | TypeError

text \<open>Python's \<^verbatim>\<open>x / n\<close> and \<^verbatim>\<open>x // n\<close> with \<^verbatim>\<open>n = len(...)\<close>: both raise on zero.\<close>

definition py_truediv :: "real \<Rightarrow> nat \<Rightarrow> error + real" where
  "py_truediv x n = (if n = 0 then Inl ZeroDivisionError else Inr (x / real n))"

definition py_floordiv :: "int \<Rightarrow> nat \<Rightarrow> error + int" where
  "py_floordiv x n = (if n = 0 then Inl ZeroDivisionError else Inr (x div int n))"

text \<open>\<^verbatim>\<open>xs[0]\<close>\<close>

definition py_first :: "'a list \<Rightarrow> error + 'a" where
  "py_first xs = (case xs of [] \<Rightarrow> Inl IndexError | x # _ \<Rightarrow> Inr x)"

subsection \<open>Command line (lines 25-34)\<close>

text \<open>
  \<^verbatim>\<open>cmdline\<close> is what the user typed, option by option (\<open>None\<close>: the option is absent).
  \<^verbatim>\<open>--gpus\<close> has \<^verbatim>\<open>nargs='+'\<close>: given with no value, argparse exits.
\<close>

record cmdline =
  opt_gpus :: "int list option"
  opt_process :: "int option"
  opt_prefetch :: "int option"
  opt_resume :: "string option"

record args =
  gpus :: "int list"
  process :: int
  prefetch :: int
  resume :: string

definition parse_args :: "cmdline \<Rightarrow> error + args" where
  "parse_args cl =
     (case opt_gpus cl of
        Some [] \<Rightarrow> Inl SystemExit
      | _ \<Rightarrow> Inr \<lparr> gpus = (case opt_gpus cl of None \<Rightarrow> [-1] | Some g \<Rightarrow> g),
                 process = (case opt_process cl of None \<Rightarrow> 1 | Some n \<Rightarrow> n),
                 prefetch = (case opt_prefetch cl of None \<Rightarrow> 64 | Some n \<Rightarrow> n),
                 resume = (case opt_resume cl of None \<Rightarrow> [] | Some s \<Rightarrow> s) \<rparr>)"

subsection \<open>The configuration module \<^verbatim>\<open>params\<close>\<close>

text \<open>
  \<^verbatim>\<open>params.py\<close> is a module of constants. The script reads the learning rate, the batch
  size, the path of the pretrained weights and the triggers. A trigger is a pair such as
  \<^verbatim>\<open>(1000, 'iteration')\<close>; here it is the predicate it stands for: whether it fires
  after the given number of completed iterations.
\<close>

record params =
  lr :: real
  batchsize :: int
  trigger :: "nat \<Rightarrow> bool"
  annealing_interval :: "nat \<Rightarrow> bool"
  evaluate_interval :: "nat \<Rightarrow> bool"
  snapshot_interval :: "nat \<Rightarrow> bool"
  report_interval :: "nat \<Rightarrow> bool"

subsection \<open>Links and parameters\<close>

type_synonym ndarray = "real list"

text \<open>
  The update rule the optimizer attaches to a parameter: the flag \<^verbatim>\<open>enabled\<close>, the
  rule's own step counter and its state arrays (Adam's two moment estimates).
\<close>

record update_rule =
  enabled :: bool
  rule_t :: nat
  rule_state :: "ndarray list"

record parameter =
  data :: ndarray
  grad :: ndarray
  rule :: "update_rule option"

text \<open>A link is seen through \<^verbatim>\<open>link.params()\<close>: the parameters of its hierarchy.\<close>

type_synonym link = "parameter list"

text \<open>
  \<^verbatim>\<open>DistilModel(encoder, teacher, student)\<close>; the script reads \<^verbatim>\<open>model.teacher\<close> and
  \<^verbatim>\<open>model.encoder\<close> (lines 86-87).
\<close>

record DistilModel =
  encoder :: link
  teacher :: link
  student :: link

text \<open>\<^verbatim>\<open>model.params()\<close>: every parameter below the model.\<close>

definition model_params :: "DistilModel \<Rightarrow> parameter list" where
  "model_params m = encoder m @ teacher m @ student m"

text \<open>
  \<^verbatim>\<open>chainer.serializers.load_npz(file, link, path)\<close> copies the arrays stored below
  \<^verbatim>\<open>path\<close> into the link's parameters; an array that the file lacks is a KeyError.
\<close>

definition load_npz_link :: "ndarray list \<Rightarrow> link \<Rightarrow> error + link" where
  "load_npz_link arrays l =
     (if length arrays = length l
      then Inr (map (\<lambda>(a, p). p\<lparr>data := a\<rparr>) (zip arrays l))
      else Inl KeyError)"

text \<open>
  \<^verbatim>\<open>link.disable_update()\<close>: clears \<^verbatim>\<open>enabled\<close> in the update rule of every parameter
  of the link that has one.
\<close>

definition disable_rule :: "parameter \<Rightarrow> parameter" where
  "disable_rule p =
     (case rule p of None \<Rightarrow> p | Some r \<Rightarrow> p\<lparr>rule := Some (r\<lparr>enabled := False\<rparr>)\<rparr>)"

definition disable_update :: "link \<Rightarrow> link" where
  "disable_update l = map disable_rule l"

subsection \<open>Optimizer (lines 83-87)\<close>

datatype hook = GradientClipping real

text \<open>
  \<^verbatim>\<open>optimizer.target\<close> is the model object itself, not a copy: the script's variable
  \<^verbatim>\<open>model\<close> and \<^verbatim>\<open>optimizer.target\<close> are one object, so after \<^verbatim>\<open>setup\<close> the model
  lives in the field \<open>target\<close> and \<^verbatim>\<open>model.teacher.disable_update()\<close> acts there.
\<close>

record optimizer =
  alpha :: real
  optimizer_t :: nat
  hooks :: "hook list"
  target :: "DistilModel option"

definition Adam :: "real \<Rightarrow> optimizer" where
  "Adam a = \<lparr> alpha = a, optimizer_t = 0, hooks = [], target = None \<rparr>"

text \<open>
  \<^verbatim>\<open>optimizer.setup(link)\<close>: the link becomes the target, the step counter and the
  hooks start afresh, and every parameter below the link gets a fresh, enabled update
  rule.
\<close>

definition create_update_rule :: "parameter \<Rightarrow> parameter" where
  "create_update_rule p = p\<lparr>rule := Some \<lparr> enabled = True, rule_t = 0, rule_state = [] \<rparr>\<rparr>"

definition optimizer_setup :: "optimizer \<Rightarrow> DistilModel \<Rightarrow> optimizer" where
  "optimizer_setup opt m =
     opt\<lparr>optimizer_t := 0, hooks := [],
         target := Some \<lparr> encoder = map create_update_rule (encoder m),
                           teacher = map create_update_rule (teacher m),
                           student = map create_update_rule (student m) \<rparr>\<rparr>"

definition add_hook :: "optimizer \<Rightarrow> hook \<Rightarrow> optimizer" where
  "add_hook opt h = opt\<lparr>hooks := hooks opt @ [h]\<rparr>"

text \<open>Lines 86 and 87, through the shared model object.\<close>

definition teacher_disable_update :: "optimizer \<Rightarrow> optimizer" where
  "teacher_disable_update opt =
     opt\<lparr>target := map_option (\<lambda>m. m\<lparr>teacher := disable_update (teacher m)\<rparr>) (target opt)\<rparr>"

definition encoder_disable_update :: "optimizer \<Rightarrow> optimizer" where
  "encoder_disable_update opt =
     opt\<lparr>target := map_option (\<lambda>m. m\<lparr>encoder := disable_update (encoder m)\<rparr>) (target opt)\<rparr>"

definition make_optimizer :: "params \<Rightarrow> args \<Rightarrow> DistilModel \<Rightarrow> error + optimizer" where
  "make_optimizer p a m =
     (case py_truediv (lr p) (length (gpus a)) of
        Inl e \<Rightarrow> Inl e
      | Inr rate \<Rightarrow>
          Inr (encoder_disable_update (teacher_disable_update
                 (add_hook (optimizer_setup (Adam rate) m) (GradientClipping 10)))))"

subsection \<open>Model (lines 63-80)\<close>

text \<open>
  The constructors \<^verbatim>\<open>UpsampleNet\<close>, \<^verbatim>\<open>WaveNet\<close> and \<^verbatim>\<open>ParallelWaveNet\<close> give the three
  links with their initial parameters; they are inputs here. \<open>pretrained\<close> is the content
  of the file \<^verbatim>\<open>params.model\<close>: the arrays below \<^verbatim>\<open>updater/model:main/encoder/\<close> and
  below \<^verbatim>\<open>updater/model:main/decoder/\<close>, or \<open>None\<close> when the file cannot be read.
\<close>

record networks =
  init_encoder :: link
  init_teacher :: link
  init_student :: link
  pretrained :: "(ndarray list \<times> ndarray list) option"

definition make_model :: "networks \<Rightarrow> error + DistilModel" where
  "make_model n =
     (case pretrained n of
        None \<Rightarrow> Inl FileNotFoundError
      | Some (enc_arrays, dec_arrays) \<Rightarrow>
          (case load_npz_link enc_arrays (init_encoder n) of
             Inl e \<Rightarrow> Inl e
           | Inr enc \<Rightarrow>
               (case load_npz_link dec_arrays (init_teacher n) of
                  Inl e \<Rightarrow> Inl e
                | Inr tea \<Rightarrow>
                    Inr \<lparr> encoder = enc, teacher = tea, student = init_student n \<rparr>)))"

subsection \<open>Iterators (lines 90-100)\<close>

datatype dataset = Train | Valid

text \<open>
  The fields of an iterator: the dataset, the batch size, \<^verbatim>\<open>repeat\<close>, \<^verbatim>\<open>shuffle\<close>, and
  for the multiprocess one \<^verbatim>\<open>n_processes\<close> and \<^verbatim>\<open>n_prefetch\<close>. \<^verbatim>\<open>repeat\<close> and
  \<^verbatim>\<open>shuffle\<close> default to \<^verbatim>\<open>True\<close>.
\<close>

datatype iterator =
    MultiprocessIterator dataset int bool bool int int
  | SerialIterator dataset int bool bool

fun iter_batchsize :: "iterator \<Rightarrow> int" where
  "iter_batchsize (MultiprocessIterator d b r s np nf) = b"
| "iter_batchsize (SerialIterator d b r s) = b"


definition make_iterators :: "params \<Rightarrow> args \<Rightarrow> error + (iterator \<times> iterator)" where
  "make_iterators p a =
     (case py_floordiv (batchsize p) (length (gpus a)) of
        Inl e \<Rightarrow> Inl e
      | Inr vb \<Rightarrow>
          (if process a * prefetch a > 1
           then Inr (MultiprocessIterator Train (batchsize p) True True (process a) (prefetch a),
                     MultiprocessIterator Valid vb False False (process a) (prefetch a))
           else Inr (SerialIterator Train (batchsize p) True True,
                     SerialIterator Valid vb False False)))"

subsection \<open>Global library state (lines 35-37 and 106)\<close>

record chainer_config =
  max_workspace_size :: "nat option"
  autotune :: bool
  current_device :: "int option"

definition configure :: "args \<Rightarrow> chainer_config" where
  "configure a =
     (if gpus a \<noteq> [-1]
      then \<lparr> max_workspace_size = Some (2 * 512 * 1024 * 1024), autotune = True,
             current_device = None \<rparr>
      else \<lparr> max_workspace_size = None, autotune = False, current_device = None \<rparr>)"

subsection \<open>Updater (lines 103-110)\<close>

text \<open>\<^verbatim>\<open>str(n)\<close> for the device names \<^verbatim>\<open>'0'\<close>, \<^verbatim>\<open>'1'\<close>, ...\<close>

fun str_nat :: "nat \<Rightarrow> string" where
  "str_nat n =
     (if n < 10 then [char_of (48 + n)]
      else str_nat (n div 10) @ [char_of (48 + n mod 10)])"

datatype updater =
    StandardUpdater
  | ParallelUpdater "(string \<times> int) list"

text \<open>
  \<^verbatim>\<open>names = ['main'] + list(range(len(args.gpus) - 1))\<close> and the dictionary of
  \<^verbatim>\<open>zip(names, args.gpus)\<close>, as an association list in the order of the devices.
\<close>

definition device_names :: "nat \<Rightarrow> string list" where
  "device_names n = ''main'' # map str_nat [0 ..< n - 1]"

text \<open>
  \<^verbatim>\<open>chainer.cuda.get_device_from_id(g).use()\<close>: a negative identifier gives the dummy
  device, whose \<^verbatim>\<open>use\<close> does nothing; otherwise device \<open>g\<close> becomes the current one.
\<close>

definition cuda_use :: "int \<Rightarrow> chainer_config \<Rightarrow> chainer_config" where
  "cuda_use g cfg = (if 0 \<le> g then cfg\<lparr>current_device := Some g\<rparr> else cfg)"

definition make_updater :: "args \<Rightarrow> chainer_config \<Rightarrow> error + (updater \<times> chainer_config)" where
  "make_updater a cfg =
     (if gpus a = [-1] then Inr (StandardUpdater, cfg)
      else
        (case py_first (gpus a) of
           Inl e \<Rightarrow> Inl e
         | Inr g \<Rightarrow>
             Inr (ParallelUpdater (zip (device_names (length (gpus a))) (gpus a)),
                  cuda_use g cfg)))"

subsection \<open>What the networks compute\<close>

text \<open>
  The forward and backward passes of the three networks are not part of the script, and
  the library computes on arrays in floating point. A training step needs the gradient of
  the loss for every parameter, the clipping hook its rate and the scaled arrays, the
  update rule Adam's arithmetic, an evaluation pass the validation losses, and the
  training iterator its counters; they are the fields of \<open>numerics\<close>, and every theorem
  below that speaks of a run holds for all of them.
  \<^item> \<open>loss_grad i m part k\<close>: the gradient that the step after \<open>i\<close> completed iterations
    leaves in the \<open>k\<close>-th parameter of the given part of the model \<open>m\<close>, after the
    updater's reduction over the devices;
  \<^item> \<open>update_core a r g d\<close>: the new array and the new rule state that Adam computes
    from its \<^verbatim>\<open>alpha\<close>, the rule, the gradient and the array;
  \<^item> \<open>eval_loss m\<close>: the averaged validation report of the model;
  \<^item> \<open>clip_rate threshold gs\<close>: the quotient \<^verbatim>\<open>threshold / norm\<close> that the clipping
    hook computes from the gradients \<open>gs\<close> of all parameters of the target, \<open>None\<close>
    when it is not a finite number (a zero norm gives infinity);
  \<^item> \<open>scale_array rate g\<close>: the array \<^verbatim>\<open>g * rate\<close>, in the precision of \<open>g\<close>;
  \<^item> \<open>next_position it (pos, ep)\<close>: the position and the epoch counter of the training
    iterator \<open>it\<close> after it has served one more batch (they depend on the size of the
    dataset).
\<close>

datatype subgraph = Encoder | Teacher | Student

record numerics =
  loss_grad :: "nat \<Rightarrow> DistilModel \<Rightarrow> subgraph \<Rightarrow> nat \<Rightarrow> ndarray"
  update_core :: "real \<Rightarrow> update_rule \<Rightarrow> ndarray \<Rightarrow> ndarray \<Rightarrow> ndarray \<times> ndarray list"
  eval_loss :: "DistilModel \<Rightarrow> (string \<times> real) list"
  clip_rate :: "real \<Rightarrow> ndarray list \<Rightarrow> real option"
  scale_array :: "real \<Rightarrow> ndarray \<Rightarrow> ndarray"
  next_position :: "iterator \<Rightarrow> nat \<times> nat \<Rightarrow> nat \<times> nat"

subsection \<open>One optimizer update\<close>

definition set_grads :: "(nat \<Rightarrow> ndarray) \<Rightarrow> link \<Rightarrow> link" where
  "set_grads g l = map (\<lambda>(k, p). p\<lparr>grad := g k\<rparr>) (enumerate 0 l)"

text \<open>\<^verbatim>\<open>loss.backward()\<close>: every parameter of the target receives its gradient.\<close>

definition backward :: "numerics \<Rightarrow> nat \<Rightarrow> DistilModel \<Rightarrow> DistilModel" where
  "backward nm i m =
     \<lparr> encoder = set_grads (loss_grad nm i m Encoder) (encoder m),
       teacher = set_grads (loss_grad nm i m Teacher) (teacher m),
       student = set_grads (loss_grad nm i m Student) (student m) \<rparr>"

text \<open>
  \<^verbatim>\<open>GradientClipping(threshold)\<close>: the hook computes \<^verbatim>\<open>rate = threshold / norm\<close>, the
  norm taken over the gradients of all parameters of the target; when the rate is below 1
  it multiplies every gradient array by it. A rate that is infinite or not a number is
  not below 1: nothing is scaled.
\<close>

definition scale_grad :: "numerics \<Rightarrow> real \<Rightarrow> parameter \<Rightarrow> parameter" where
  "scale_grad nm rate p = p\<lparr>grad := scale_array nm rate (grad p)\<rparr>"

fun call_hook :: "numerics \<Rightarrow> hook \<Rightarrow> DistilModel \<Rightarrow> DistilModel" where
  "call_hook nm (GradientClipping threshold) m =
     (case clip_rate nm threshold (map grad (model_params m)) of
        None \<Rightarrow> m
      | Some rate \<Rightarrow>
          (if rate < 1
           then \<lparr> encoder = map (scale_grad nm rate) (encoder m),
                  teacher = map (scale_grad nm rate) (teacher m),
                  student = map (scale_grad nm rate) (student m) \<rparr>
           else m))"

definition call_hooks :: "numerics \<Rightarrow> hook list \<Rightarrow> DistilModel \<Rightarrow> DistilModel" where
  "call_hooks nm hs m = fold (call_hook nm) hs m"

text \<open>
  \<^verbatim>\<open>param.update()\<close>: nothing without an update rule, nothing when the rule is not
  enabled; otherwise the rule counts the step and Adam rewrites the array and the state.
\<close>

definition param_update :: "numerics \<Rightarrow> real \<Rightarrow> parameter \<Rightarrow> parameter" where
  "param_update nm a p =
     (case rule p of
        None \<Rightarrow> p
      | Some r \<Rightarrow>
          (if \<not> enabled r then p
           else
             (let r1 = r\<lparr>rule_t := rule_t r + 1\<rparr>;
                  (d, s) = update_core nm a r1 (grad p) (data p)
              in p\<lparr>data := d, rule := Some (r1\<lparr>rule_state := s\<rparr>)\<rparr>)))"

text \<open>The gradients as they stand when the update rules run: after the hooks.\<close>

definition clipped_model :: "numerics \<Rightarrow> nat \<Rightarrow> optimizer \<Rightarrow> DistilModel \<Rightarrow> DistilModel" where
  "clipped_model nm i opt m = call_hooks nm (hooks opt) (backward nm i m)"

text \<open>
  \<^verbatim>\<open>optimizer.update(lossfun, ...)\<close>: backward pass, hooks, the step counter, then
  \<^verbatim>\<open>param.update()\<close> for every parameter of the target. Without a target the call fails.
\<close>

definition optimizer_update :: "numerics \<Rightarrow> nat \<Rightarrow> optimizer \<Rightarrow> error + optimizer" where
  "optimizer_update nm i opt =
     (case target opt of
        None \<Rightarrow> Inl AttributeError
      | Some m \<Rightarrow>
          (let m1 = clipped_model nm i opt m in
           Inr (opt\<lparr>optimizer_t := optimizer_t opt + 1,
                    target := Some \<lparr> encoder = map (param_update nm (alpha opt)) (encoder m1),
                                      teacher = map (param_update nm (alpha opt)) (teacher m1),
                                      student = map (param_update nm (alpha opt)) (student m1) \<rparr>\<rparr>)))"

subsection \<open>Trainer and extensions (lines 113-146)\<close>

datatype extension =
    ExponentialShift string real
  | Evaluator int
  | dump_graph string
  | snapshot
  | LogReport
  | observe_lr
  | PrintReport "string list"
  | PlotReport "string list" string
  | ProgressBar nat

text \<open>
  What \<^verbatim>\<open>extensions.snapshot()\<close> writes and \<^verbatim>\<open>load_npz(file, trainer)\<close> reads: the
  iteration counter, the position and the epoch counter of the training iterator, the
  optimizer's step counter, for every parameter its array and its rule's counter and
  state, and the state of the \<^verbatim>\<open>ExponentialShift\<close> extension. (The triggers are
  predicates of the iteration count here and have no state of their own.)
\<close>

type_synonym saved_param = "ndarray \<times> nat \<times> ndarray list"

record snapshot_file =
  snap_iteration :: nat
  snap_current_position :: nat
  snap_epoch :: nat
  snap_optimizer_t :: nat
  snap_encoder :: "saved_param list"
  snap_teacher :: "saved_param list"
  snap_student :: "saved_param list"
  snap_shift_t :: nat
  snap_shift_last_value :: "real option"

record trainer =
  optimizer_main :: optimizer
  train_iter :: iterator
  valid_iter :: iterator
  updater_main :: updater
  stop_trigger :: "nat \<Rightarrow> bool"
  extensions :: "(extension \<times> (nat \<Rightarrow> bool)) list"
  iteration :: nat
  current_position :: nat
  epoch :: nat
  shift_t :: nat
  shift_init :: "real option"
  shift_last_value :: "real option"
  observation :: "(string \<times> real) list"
  saved :: "snapshot_file list"
  config :: chainer_config

subsection \<open>Snapshots\<close>

definition save_param :: "parameter \<Rightarrow> saved_param" where
  "save_param p =
     (case rule p of
        None \<Rightarrow> (data p, 0, [])
      | Some r \<Rightarrow> (data p, rule_t r, rule_state r))"

text \<open>Loading keeps the gradient and the flag \<^verbatim>\<open>enabled\<close>: neither is in the file.\<close>

definition load_param :: "saved_param \<Rightarrow> parameter \<Rightarrow> parameter" where
  "load_param sp p =
     (case sp of (d, t, s) \<Rightarrow>
        (case rule p of
           None \<Rightarrow> p\<lparr>data := d\<rparr>
         | Some r \<Rightarrow> p\<lparr>data := d, rule := Some (r\<lparr>rule_t := t, rule_state := s\<rparr>)\<rparr>))"

definition load_link :: "saved_param list \<Rightarrow> link \<Rightarrow> link" where
  "load_link sps l = map (\<lambda>(sp, p). load_param sp p) (zip sps l)"

definition save_npz_trainer :: "trainer \<Rightarrow> error + snapshot_file" where
  "save_npz_trainer tr =
     (case target (optimizer_main tr) of
        None \<Rightarrow> Inl AttributeError
      | Some m \<Rightarrow>
          Inr \<lparr> snap_iteration = iteration tr,
                snap_current_position = current_position tr,
                snap_epoch = epoch tr,
                snap_optimizer_t = optimizer_t (optimizer_main tr),
                snap_encoder = map save_param (encoder m),
                snap_teacher = map save_param (teacher m),
                snap_student = map save_param (student m),
                snap_shift_t = shift_t tr,
                snap_shift_last_value = shift_last_value tr \<rparr>)"

text \<open>
  \<^verbatim>\<open>chainer.serializers.load_npz(args.resume, trainer)\<close>: every entry the trainer asks
  for must be in the file (KeyError otherwise). The optimizer's \<^verbatim>\<open>alpha\<close> is not an
  entry of the file.
\<close>

definition load_npz_trainer :: "snapshot_file \<Rightarrow> trainer \<Rightarrow> error + trainer" where
  "load_npz_trainer sf tr =
     (case target (optimizer_main tr) of
        None \<Rightarrow> Inl AttributeError
      | Some m \<Rightarrow>
          (if length (snap_encoder sf) = length (encoder m)
              \<and> length (snap_teacher sf) = length (teacher m)
              \<and> length (snap_student sf) = length (student m)
           then
             Inr (tr\<lparr>optimizer_main :=
                        (optimizer_main tr)
                          \<lparr>optimizer_t := snap_optimizer_t sf,
                           target := Some \<lparr> encoder = load_link (snap_encoder sf) (encoder m),
                                             teacher = load_link (snap_teacher sf) (teacher m),
                                             student = load_link (snap_student sf) (student m) \<rparr>\<rparr>,
                     iteration := snap_iteration sf,
                     current_position := snap_current_position sf,
                     epoch := snap_epoch sf,
                     shift_t := snap_shift_t sf,
                     shift_last_value := snap_shift_last_value sf\<rparr>)
           else Inl KeyError))"

subsection \<open>The extensions at work\<close>

text \<open>
  Modelled from the spec: the evaluation pass. The forward pass of \<^verbatim>\<open>DistilModel\<close>
  (\<^verbatim>\<open>net.py\<close>) that \<^verbatim>\<open>Evaluator\<close> calls on every validation batch is missing; after the
  spec (4.6, Evaluating) the pass is read-only: no parameter mutation, no gradient side
  effect, no optimizer step; it aggregates the loss terms for reporting.
\<close>

definition evaluate :: "numerics \<Rightarrow> trainer \<Rightarrow> error + trainer" where
  "evaluate nm tr =
     (case target (optimizer_main tr) of
        None \<Rightarrow> Inl AttributeError
      | Some m \<Rightarrow> Inr (tr\<lparr>observation := eval_loss nm m\<rparr>))"

text \<open>
  \<^verbatim>\<open>ExponentialShift(attr, rate)\<close> when it fires: it counts the call and sets the
  attribute to \<^verbatim>\<open>init * rate ** t\<close>. The reporting extensions write to the output
  directory and the console only.
\<close>

definition set_attr :: "string \<Rightarrow> real \<Rightarrow> optimizer \<Rightarrow> optimizer" where
  "set_attr attr v opt = (if attr = ''alpha'' then opt\<lparr>alpha := v\<rparr> else opt)"

fun run_extension :: "numerics \<Rightarrow> extension \<Rightarrow> trainer \<Rightarrow> error + trainer" where
  "run_extension nm (ExponentialShift attr rate) tr =
     (case shift_init tr of
        None \<Rightarrow> Inl TypeError
      | Some init \<Rightarrow>
          (let t = shift_t tr + 1; v = init * rate ^ t in
           Inr (tr\<lparr>shift_t := t, shift_last_value := Some v,
                   optimizer_main := set_attr attr v (optimizer_main tr)\<rparr>)))"
| "run_extension nm (Evaluator device) tr = evaluate nm tr"
| "run_extension nm snapshot tr =
     (case save_npz_trainer tr of
        Inl e \<Rightarrow> Inl e
      | Inr sf \<Rightarrow> Inr (tr\<lparr>saved := saved tr @ [sf]\<rparr>))"
| "run_extension nm e tr = Inr tr"

text \<open>
  \<^verbatim>\<open>extension.initialize(trainer)\<close>, called once when the run starts; of the extensions
  of the script only \<^verbatim>\<open>ExponentialShift\<close> does something: it records the attribute's
  value as \<^verbatim>\<open>init\<close>, and sets the attribute to the last value of a loaded snapshot
  when there is one, to \<^verbatim>\<open>init\<close> otherwise; the value it sets is its last value.
\<close>

fun initialize_extension :: "extension \<Rightarrow> trainer \<Rightarrow> trainer" where
  "initialize_extension (ExponentialShift attr rate) tr =
     (let init = (case shift_init tr of None \<Rightarrow> alpha (optimizer_main tr) | Some i \<Rightarrow> i);
          v = (case shift_last_value tr of None \<Rightarrow> init | Some l \<Rightarrow> l)
      in tr\<lparr>shift_init := Some init, shift_last_value := Some v,
            optimizer_main := set_attr attr v (optimizer_main tr)\<rparr>)"
| "initialize_extension e tr = tr"

definition initialize :: "trainer \<Rightarrow> trainer" where
  "initialize tr = fold (\<lambda>(e, trg). initialize_extension e) (extensions tr) tr"

text \<open>
  After an update, every extension whose trigger fires at the new iteration count is
  called. The library calls them by priority; the script's order of registration agrees
  with it on the extensions that act on the trainer (the snapshot is taken last).
\<close>

fun run_extensions ::
  "numerics \<Rightarrow> (extension \<times> (nat \<Rightarrow> bool)) list \<Rightarrow> trainer \<Rightarrow> error + trainer" where
  "run_extensions nm [] tr = Inr tr"
| "run_extensions nm ((e, trg) # es) tr =
     (if trg (iteration tr)
      then (case run_extension nm e tr of
              Inl err \<Rightarrow> Inl err
            | Inr tr' \<Rightarrow> run_extensions nm es tr')
      else run_extensions nm es tr)"

text \<open>
  \<^verbatim>\<open>updater.update()\<close>: the training iterator serves a batch, one optimizer update,
  then the iteration counter. For \<^verbatim>\<open>ParallelUpdater\<close> the gradients are those summed
  over the devices, the update is the same single call.
\<close>

definition updater_update :: "numerics \<Rightarrow> trainer \<Rightarrow> error + trainer" where
  "updater_update nm tr =
     (case optimizer_update nm (iteration tr) (optimizer_main tr) of
        Inl e \<Rightarrow> Inl e
      | Inr opt \<Rightarrow>
          (case next_position nm (train_iter tr) (current_position tr, epoch tr) of
             (pos, ep) \<Rightarrow>
               Inr (tr\<lparr>optimizer_main := opt, iteration := iteration tr + 1,
                       current_position := pos, epoch := ep\<rparr>)))"

text \<open>One pass of the loop of \<^verbatim>\<open>trainer.run()\<close>.\<close>

definition trainer_step :: "numerics \<Rightarrow> trainer \<Rightarrow> error + trainer" where
  "trainer_step nm tr =
     (case updater_update nm tr of
        Inl e \<Rightarrow> Inl e
      | Inr tr' \<Rightarrow> run_extensions nm (extensions tr') tr')"

fun run_iterations :: "numerics \<Rightarrow> nat \<Rightarrow> trainer \<Rightarrow> error + trainer" where
  "run_iterations nm 0 tr = Inr tr"
| "run_iterations nm (Suc n) tr =
     (case trainer_step nm tr of
        Inl e \<Rightarrow> Inl e
      | Inr tr' \<Rightarrow> run_iterations nm n tr')"

text \<open>
  \<^verbatim>\<open>trainer.run()\<close>, seen after \<open>n\<close> completed passes of its loop (the stop trigger
  decides how many passes a run makes).
\<close>

definition trainer_run :: "numerics \<Rightarrow> nat \<Rightarrow> trainer \<Rightarrow> error + trainer" where
  "trainer_run nm n tr = run_iterations nm n (initialize tr)"

subsection \<open>The script\<close>

definition make_extensions :: "params \<Rightarrow> int \<Rightarrow> (extension \<times> (nat \<Rightarrow> bool)) list" where
  "make_extensions p device =
     [(ExponentialShift ''alpha'' 0.5, annealing_interval p),
      (Evaluator device, evaluate_interval p),
      (dump_graph ''main/loss'', \<lambda>i. i = 1),
      (snapshot, snapshot_interval p),
      (LogReport, report_interval p),
      (observe_lr, report_interval p),
      (PrintReport [''epoch'', ''iteration'', ''main/loss'', ''main/kl_divergence'',
                    ''main/regularization'', ''main/spectrogram_frame_loss'',
                    ''validation/main/loss'', ''validation/main/kl_divergence'',
                    ''validation/main/regularization'',
                    ''validation/main/spectrogram_frame_loss''], report_interval p),
      (PlotReport [''main/loss'', ''validation/main/loss''] ''loss.png'', report_interval p),
      (PlotReport [''main/kl_divergence'', ''validation/main/kl_divergence''] ''kl.png'',
         report_interval p),
      (PlotReport [''main/regularization'', ''validation/main/regularization'']
         ''regularization.png'', report_interval p),
      (PlotReport [''main/spectrogram_frame_loss'', ''validation/main/spectrogram_frame_loss'']
         ''spectrogram.png'', report_interval p),
      (PlotReport [''lr''] ''lr.png'', report_interval p),
      (ProgressBar 1, \<lambda>i. True)]"

definition make_trainer ::
  "params \<Rightarrow> optimizer \<Rightarrow> iterator \<times> iterator \<Rightarrow> updater \<times> chainer_config \<Rightarrow> int \<Rightarrow> trainer" where
  "make_trainer p opt its upd device =
     \<lparr> optimizer_main = opt,
       train_iter = fst its,
       valid_iter = snd its,
       updater_main = fst upd,
       stop_trigger = trigger p,
       extensions = make_extensions p device,
       iteration = 0,
       current_position = 0,
       epoch = 0,
       shift_t = 0,
       shift_init = None,
       shift_last_value = None,
       observation = [],
       saved = [],
       config = snd upd \<rparr>"

text \<open>Lines 148-149; \<open>files\<close> gives the content of a snapshot file by its path.\<close>

definition resume_trainer ::
  "args \<Rightarrow> (string \<Rightarrow> snapshot_file option) \<Rightarrow> trainer \<Rightarrow> error + trainer" where
  "resume_trainer a files tr =
     (if resume a \<noteq> []
      then (case files (resume a) of
              None \<Rightarrow> Inl FileNotFoundError
            | Some sf \<Rightarrow> load_npz_trainer sf tr)
      else Inr tr)"

text \<open>
  The script up to the call of \<^verbatim>\<open>trainer.run()\<close>: the trainer as the run receives it,
  or the error that ends the script before. (The copies of the source files into the
  result directory, lines 52-60, are left out.)
\<close>

definition script ::
  "args \<Rightarrow> params \<Rightarrow> networks \<Rightarrow> (string \<Rightarrow> snapshot_file option) \<Rightarrow> error + trainer" where
  "script a p n files =
     (case make_model n of
        Inl e \<Rightarrow> Inl e
      | Inr m \<Rightarrow>
     (case make_optimizer p a m of
        Inl e \<Rightarrow> Inl e
      | Inr opt \<Rightarrow>
     (case make_iterators p a of
        Inl e \<Rightarrow> Inl e
      | Inr its \<Rightarrow>
     (case make_updater a (configure a) of
        Inl e \<Rightarrow> Inl e
      | Inr upd \<Rightarrow>
     (case py_first (gpus a) of
        Inl e \<Rightarrow> Inl e
      | Inr device \<Rightarrow> resume_trainer a files (make_trainer p opt its upd device))))))"

definition main ::
  "cmdline \<Rightarrow> params \<Rightarrow> networks \<Rightarrow> (string \<Rightarrow> snapshot_file option) \<Rightarrow> error + trainer" where
  "main cl p n files =
     (case parse_args cl of
        Inl e \<Rightarrow> Inl e
      | Inr a \<Rightarrow> script a p n files)"

section \<open>Observations\<close>

text \<open>The flag \<^verbatim>\<open>enabled\<close> of every parameter of a link (\<open>None\<close>: no update rule).\<close>

definition update_flags :: "link \<Rightarrow> bool option list" where
  "update_flags l = map (\<lambda>q. map_option enabled (rule q)) l"

text \<open>
  The parameters that \<^verbatim>\<open>optimizer.update\<close> walks through (\<^verbatim>\<open>target.params()\<close>), the
  student's parameters, and the arrays of the encoder and of the teacher.
\<close>

definition update_target_set :: "trainer \<Rightarrow> parameter list" where
  "update_target_set tr =
     (case target (optimizer_main tr) of None \<Rightarrow> [] | Some m \<Rightarrow> model_params m)"

definition trainable_parameter_set :: "trainer \<Rightarrow> parameter list" where
  "trainable_parameter_set tr =
     (case target (optimizer_main tr) of None \<Rightarrow> [] | Some m \<Rightarrow> student m)"

definition frozen_parameter_set :: "trainer \<Rightarrow> (ndarray list \<times> ndarray list) option" where
  "frozen_parameter_set tr =
     map_option (\<lambda>m. (map data (encoder m), map data (teacher m))) (target (optimizer_main tr))"

text \<open>
  How often the annealing trigger fires in the \<open>N\<close> iterations that follow iteration
  \<open>i\<close>: the triggers are asked after each update, at the new iteration count.
\<close>

definition annealing_count :: "params \<Rightarrow> nat \<Rightarrow> nat \<Rightarrow> nat" where
  "annealing_count p i N = length (filter (annealing_interval p) [Suc i ..< Suc (i + N)])"

text \<open>Invariants of the run, used in the proofs.\<close>

definition all_disabled :: "link \<Rightarrow> bool" where
  "all_disabled l = (update_flags l = replicate (length l) (Some False))"

definition frozen_ready :: "trainer \<Rightarrow> bool" where
  "frozen_ready tr =
     (case target (optimizer_main tr) of
        None \<Rightarrow> False
      | Some m \<Rightarrow> all_disabled (encoder m) \<and> all_disabled (teacher m) \<and> shift_init tr \<noteq> None)"

fun is_shift :: "extension \<Rightarrow> bool" where
  "is_shift (ExponentialShift attr rate) = True"
| "is_shift e = False"

definition annealing_ready :: "params \<Rightarrow> int \<Rightarrow> real \<Rightarrow> trainer \<Rightarrow> bool" where
  "annealing_ready p d a0 tr =
     (extensions tr = make_extensions p d \<and> shift_init tr = Some a0)"

section \<open>Example inputs\<close>

definition example_parameter :: "real \<Rightarrow> parameter" where
  "example_parameter x = \<lparr> data = [x], grad = [0], rule = None \<rparr>"

definition example_networks :: networks where
  "example_networks =
     \<lparr> init_encoder = [example_parameter 1],
       init_teacher = [example_parameter 1],
       init_student = [example_parameter 1],
       pretrained = Some ([[2]], [[3]]) \<rparr>"

definition example_params :: params where
  "example_params =
     \<lparr> lr = 1 / 1000, batchsize = 2,
       trigger = (\<lambda>i. 4 \<le> i),
       annealing_interval = (\<lambda>i. i mod 2 = 0),
       evaluate_interval = (\<lambda>i. i mod 2 = 0),
       snapshot_interval = (\<lambda>i. i mod 2 = 0),
       report_interval = (\<lambda>i. True) \<rparr>"

text \<open>
  Numerics for the examples: the clipping hook in arithmetic without rounding, plain
  gradient descent in the place of Adam, and a training set of four items.
\<close>

definition sum_sqnorm :: "ndarray list \<Rightarrow> real" where
  "sum_sqnorm gs = (\<Sum>g\<leftarrow>gs. \<Sum>x\<leftarrow>g. x * x)"

definition exact_clip_rate :: "real \<Rightarrow> ndarray list \<Rightarrow> real option" where
  "exact_clip_rate threshold gs =
     (let norm = sqrt (sum_sqnorm gs) in
      if norm = 0 then None else Some (threshold / norm))"

definition exact_scale_array :: "real \<Rightarrow> ndarray \<Rightarrow> ndarray" where
  "exact_scale_array rate g = map (\<lambda>x. x * rate) g"

definition example_numerics :: numerics where
  "example_numerics =
     \<lparr> loss_grad = (\<lambda>i m part k. if part = Encoder then [1] else [2]),
       update_core = (\<lambda>a r g d. (map (\<lambda>(x, y). x - a * y) (zip d g), [g])),
       eval_loss = (\<lambda>m. [(''validation/main/loss'', 0)]),
       clip_rate = exact_clip_rate,
       scale_array = exact_scale_array,
       next_position = (\<lambda>it (pos, ep). if 4 \<le> pos + 2 then (pos + 2 - 4, Suc ep)
                                        else (pos + 2, ep)) \<rparr>"

definition no_options :: cmdline where
  "no_options = \<lparr> opt_gpus = None, opt_process = None, opt_prefetch = None, opt_resume = None \<rparr>"

definition three_gpus :: cmdline where
  "three_gpus = \<lparr> opt_gpus = Some [0, 1, 2], opt_process = None, opt_prefetch = None,
                   opt_resume = None \<rparr>"

definition minus_two :: cmdline where
  "minus_two = \<lparr> opt_gpus = Some [-2], opt_process = None, opt_prefetch = None,
                  opt_resume = None \<rparr>"

definition resume_options :: cmdline where
  "resume_options = \<lparr> opt_gpus = None, opt_process = None, opt_prefetch = None,
                       opt_resume = Some ''snapshot_iter_4'' \<rparr>"

definition resume_two_gpus :: cmdline where
  "resume_two_gpus = \<lparr> opt_gpus = Some [0, 1], opt_process = None, opt_prefetch = None,
                        opt_resume = Some ''snapshot_iter_4'' \<rparr>"

definition no_files :: "string \<Rightarrow> snapshot_file option" where
  "no_files path = None"

definition example_snapshot :: snapshot_file where
  "example_snapshot =
     \<lparr> snap_iteration = 4, snap_current_position = 0, snap_epoch = 2,
       snap_optimizer_t = 4,
       snap_encoder = [([2], 0, [])],
       snap_teacher = [([3], 0, [])],
       snap_student = [([7], 4, [[1]])],
       snap_shift_t = 2, snap_shift_last_value = Some (1 / 4000) \<rparr>"

definition example_files :: "string \<Rightarrow> snapshot_file option" where
  "example_files path = (if path = ''snapshot_iter_4'' then Some example_snapshot else None)"

section \<open>The trainer the script builds\<close>

lemmas script_defs = main_def script_def parse_args_def make_model_def make_optimizer_def
  make_iterators_def make_updater_def make_trainer_def resume_trainer_def configure_def
  py_truediv_def py_floordiv_def py_first_def load_npz_link_def

lemmas build_defs = script_defs Adam_def optimizer_setup_def add_hook_def
  teacher_disable_update_def encoder_disable_update_def disable_update_def disable_rule_def
  create_update_rule_def make_extensions_def device_names_def

lemmas example_defs = example_parameter_def example_networks_def example_params_def
  no_options_def no_files_def

lemma Inr_projr: "\<not> isl x \<Longrightarrow> x = Inr (projr x)"
  by (cases x) simp_all

lemma parse_no_options:
  "parse_args no_options = Inr \<lparr> gpus = [-1], process = 1, prefetch = 64, resume = [] \<rparr>"
  by (simp add: parse_args_def no_options_def)

lemma parse_resume_options:
  "parse_args resume_options
     = Inr \<lparr> gpus = [-1], process = 1, prefetch = 64, resume = ''snapshot_iter_4'' \<rparr>"
  by (simp add: parse_args_def resume_options_def)

lemma main_example: "\<not> isl (main no_options example_params example_networks no_files)"
  by (simp add: example_defs build_defs)

lemma main_three_gpus: "\<not> isl (main three_gpus example_params example_networks no_files)"
  by (simp add: three_gpus_def example_defs build_defs)

lemma main_resume: "\<not> isl (main resume_options example_params example_networks example_files)"
  by (simp add: resume_options_def example_files_def example_snapshot_def example_defs build_defs
      load_npz_trainer_def)

lemma main_resume_two_gpus:
  "\<not> isl (main resume_two_gpus example_params example_networks example_files)"
  by (simp add: resume_two_gpus_def example_files_def example_snapshot_def example_defs
      build_defs load_npz_trainer_def)

lemma frozen_example:
  "frozen_parameter_set (projr (main no_options example_params example_networks no_files))
     = Some ([[2]], [[3]])"
  by (simp add: example_defs build_defs frozen_parameter_set_def)

lemma alpha_example:
  "alpha (optimizer_main (projr (main no_options example_params example_networks no_files)))
     = 1 / 1000"
  by (simp add: example_defs build_defs)

text \<open>
  Three iterations on the example: the student's array moves (twice by \<open>2/1000\<close>, once,
  after the annealing at iteration 2, by \<open>2/2000\<close>).
\<close>

lemmas run_defs = trainer_run_def initialize_def trainer_step_def updater_update_def
  optimizer_update_def clipped_model_def call_hooks_def backward_def set_grads_def
  exact_clip_rate_def exact_scale_array_def sum_sqnorm_def model_params_def scale_grad_def
  param_update_def set_attr_def evaluate_def save_npz_trainer_def save_param_def Let_def

lemma run_iterations_numeral:
  "run_iterations nm (numeral k) tr =
     (case trainer_step nm tr of
        Inl e \<Rightarrow> Inl e
      | Inr tr' \<Rightarrow> run_iterations nm (pred_numeral k) tr')"
  by (simp add: numeral_eq_Suc)

lemma sqrt_9: "sqrt 9 = 3"
  by (rule real_sqrt_unique) simp_all

lemma student_example:
  "map data (trainable_parameter_set (projr (trainer_run example_numerics 3
     (projr (main no_options example_params example_networks no_files)))))
   = [[995 / 1000]]"
  by (simp add: example_defs build_defs run_defs example_numerics_def enumerate_eq_zip
      numeral_3_eq_3 sqrt_9 trainable_parameter_set_def)

lemma script_Inr:
  assumes "script a p n files = Inr tr"
  obtains m opt its upd device where
    "make_model n = Inr m" "make_optimizer p a m = Inr opt" "make_iterators p a = Inr its"
    "make_updater a (configure a) = Inr upd" "py_first (gpus a) = Inr device"
    "resume_trainer a files (make_trainer p opt its upd device) = Inr tr"
  using assms unfolding script_def by (auto split: sum.splits)

lemma main_Inr:
  assumes "main cl p n files = Inr tr"
  obtains a where "parse_args cl = Inr a" "script a p n files = Inr tr"
  using assms unfolding main_def by (auto split: sum.splits)

lemma load_npz_trainer_fields:
  assumes "load_npz_trainer sf tr0 = Inr tr"
  shows "alpha (optimizer_main tr) = alpha (optimizer_main tr0)"
    and "hooks (optimizer_main tr) = hooks (optimizer_main tr0)"
    and "train_iter tr = train_iter tr0" and "valid_iter tr = valid_iter tr0"
    and "updater_main tr = updater_main tr0" and "config tr = config tr0"
    and "extensions tr = extensions tr0" and "shift_init tr = shift_init tr0"
  using assms unfolding load_npz_trainer_def by (auto split: option.splits if_splits)

lemma resume_trainer_fields:
  assumes "resume_trainer a files tr0 = Inr tr"
  shows "alpha (optimizer_main tr) = alpha (optimizer_main tr0)"
    and "hooks (optimizer_main tr) = hooks (optimizer_main tr0)"
    and "train_iter tr = train_iter tr0" and "valid_iter tr = valid_iter tr0"
    and "updater_main tr = updater_main tr0" and "config tr = config tr0"
    and "extensions tr = extensions tr0" and "shift_init tr = shift_init tr0"
  using assms load_npz_trainer_fields[of _ tr0 tr] unfolding resume_trainer_def
  by (auto split: option.splits if_splits)

lemma make_optimizer_alpha:
  "make_optimizer p a m = Inr opt \<Longrightarrow> gpus a \<noteq> [] \<and> alpha opt = lr p / real (length (gpus a))"
  by (auto simp: make_optimizer_def py_truediv_def encoder_disable_update_def
      teacher_disable_update_def add_hook_def optimizer_setup_def Adam_def split: if_splits)

lemma load_npz_link_length: "load_npz_link arrays l = Inr l' \<Longrightarrow> length l' = length l"
  by (auto simp: load_npz_link_def split: if_splits)

lemma make_model_lengths:
  assumes "make_model n = Inr m"
  shows "length (encoder m) = length (init_encoder n)
       \<and> length (teacher m) = length (init_teacher n)
       \<and> student m = init_student n"
  using assms load_npz_link_length unfolding make_model_def
  by (fastforce split: option.splits sum.splits prod.splits)

lemma make_optimizer_target:
  assumes "make_optimizer p a m = Inr opt"
  shows "target opt = Some \<lparr> encoder = disable_update (map create_update_rule (encoder m)),
                            teacher = disable_update (map create_update_rule (teacher m)),
                            student = map create_update_rule (student m) \<rparr>
       \<and> hooks opt = [GradientClipping 10] \<and> optimizer_t opt = 0"
  using assms
  by (auto simp: make_optimizer_def py_truediv_def encoder_disable_update_def
      teacher_disable_update_def add_hook_def optimizer_setup_def Adam_def split: if_splits)

lemma flags_disabled:
  "update_flags (disable_update (map create_update_rule l)) = replicate (length l) (Some False)"
  by (simp add: update_flags_def disable_update_def disable_rule_def create_update_rule_def
      comp_def map_replicate_const)

lemma flags_created:
  "update_flags (map create_update_rule l) = replicate (length l) (Some True)"
  by (simp add: update_flags_def create_update_rule_def comp_def map_replicate_const)

lemma load_link_length: "length sps = length l \<Longrightarrow> length (load_link sps l) = length l"
  by (simp add: load_link_def)

lemma load_param_flag: "map_option enabled (rule (load_param sp q)) = map_option enabled (rule q)"
  by (cases sp) (auto simp: load_param_def split: option.splits)

lemma load_link_flags: "length sps = length l \<Longrightarrow> update_flags (load_link sps l) = update_flags l"
  by (induction sps l rule: list_induct2) (simp_all add: load_link_def update_flags_def load_param_flag)

lemma save_load_param: "rule q \<noteq> None \<Longrightarrow> save_param (load_param sp q) = sp"
  by (cases sp) (auto simp: save_param_def load_param_def split: option.splits)

lemma save_load_link:
  assumes "length sps = length l" and "update_flags l = replicate (length l) (Some b)"
  shows "map save_param (load_link sps l) = sps"
  using assms
proof (induction sps l rule: list_induct2)
  case Nil
  then show ?case by (simp add: load_link_def)
next
  case (Cons sp sps q l)
  from Cons.prems have "rule q \<noteq> None" and "update_flags l = replicate (length l) (Some b)"
    by (auto simp: update_flags_def)
  with Cons.IH show ?case
    by (simp add: load_link_def save_load_param)
qed

text \<open>What the script hands to the run.\<close>

lemma script_trainer:
  assumes "script a p n files = Inr tr"
  shows "\<exists>m device. target (optimizer_main tr) = Some m
           \<and> length (encoder m) = length (init_encoder n)
           \<and> length (teacher m) = length (init_teacher n)
           \<and> length (student m) = length (init_student n)
           \<and> update_flags (encoder m) = replicate (length (encoder m)) (Some False)
           \<and> update_flags (teacher m) = replicate (length (teacher m)) (Some False)
           \<and> update_flags (student m) = replicate (length (student m)) (Some True)
           \<and> hooks (optimizer_main tr) = [GradientClipping 10]
           \<and> extensions tr = make_extensions p device
           \<and> shift_init tr = None
           \<and> alpha (optimizer_main tr) = lr p / real (length (gpus a))
           \<and> (resume a = [] \<longrightarrow> iteration tr = 0 \<and> shift_t tr = 0 \<and> shift_last_value tr = None)
           \<and> (\<forall>sf. resume a \<noteq> [] \<and> files (resume a) = Some sf \<longrightarrow>
                 iteration tr = snap_iteration sf
                 \<and> current_position tr = snap_current_position sf
                 \<and> epoch tr = snap_epoch sf
                 \<and> shift_t tr = snap_shift_t sf
                 \<and> shift_last_value tr = snap_shift_last_value sf
                 \<and> optimizer_t (optimizer_main tr) = snap_optimizer_t sf
                 \<and> map save_param (student m) = snap_student sf
                 \<and> map save_param (teacher m) = snap_teacher sf
                 \<and> map save_param (encoder m) = snap_encoder sf)"
proof -
  from assms obtain m0 opt its upd device where
    mm: "make_model n = Inr m0" and o: "make_optimizer p a m0 = Inr opt" and
    r: "resume_trainer a files (make_trainer p opt its upd device) = Inr tr"
    by (auto elim!: script_Inr)
  define m1 where "m1 = \<lparr> encoder = disable_update (map create_update_rule (encoder m0)),
                            teacher = disable_update (map create_update_rule (teacher m0)),
                            student = map create_update_rule (student m0) \<rparr>"
  have t1: "target opt = Some m1" and h1: "hooks opt = [GradientClipping 10]"
    and o1: "optimizer_t opt = 0"
    using make_optimizer_target[OF o] by (simp_all add: m1_def)
  have l1: "length (encoder m1) = length (init_encoder n)"
    "length (teacher m1) = length (init_teacher n)"
    "length (student m1) = length (init_student n)"
    using make_model_lengths[OF mm] by (simp_all add: m1_def disable_update_def)
  have f1: "update_flags (encoder m1) = replicate (length (encoder m1)) (Some False)"
    "update_flags (teacher m1) = replicate (length (teacher m1)) (Some False)"
    "update_flags (student m1) = replicate (length (student m1)) (Some True)"
    using flags_disabled[of "encoder m0"] flags_disabled[of "teacher m0"]
      flags_created[of "student m0"]
    by (simp_all add: m1_def disable_update_def)
  define tr0 where "tr0 = make_trainer p opt its upd device"
  have tr0: "target (optimizer_main tr0) = Some m1" "hooks (optimizer_main tr0) = [GradientClipping 10]"
    "extensions tr0 = make_extensions p device" "shift_init tr0 = None"
    "iteration tr0 = 0" "shift_t tr0 = 0" "shift_last_value tr0 = None"
    "alpha (optimizer_main tr0) = lr p / real (length (gpus a))"
    using make_optimizer_alpha[OF o] by (simp_all add: tr0_def make_trainer_def t1 h1)
  show ?thesis
  proof (cases "resume a = []")
    case True
    with r have "tr = tr0" by (simp add: resume_trainer_def tr0_def)
    with True tr0 l1 f1 show ?thesis
      by (intro exI[of _ m1] exI[of _ device]) simp
  next
    case False
    with r obtain sf where sf: "files (resume a) = Some sf" and l: "load_npz_trainer sf tr0 = Inr tr"
      by (auto simp: resume_trainer_def tr0_def split: option.splits)
    from l tr0(1) have len: "length (snap_encoder sf) = length (encoder m1)"
      "length (snap_teacher sf) = length (teacher m1)"
      "length (snap_student sf) = length (student m1)"
      by (auto simp: load_npz_trainer_def split: if_splits)
    define m2 where "m2 = \<lparr> encoder = load_link (snap_encoder sf) (encoder m1),
                              teacher = load_link (snap_teacher sf) (teacher m1),
                              student = load_link (snap_student sf) (student m1) \<rparr>"
    from l tr0(1) len have tr: "tr = tr0\<lparr>optimizer_main :=
         (optimizer_main tr0)\<lparr>optimizer_t := snap_optimizer_t sf, target := Some m2\<rparr>,
         iteration := snap_iteration sf, current_position := snap_current_position sf,
         epoch := snap_epoch sf, shift_t := snap_shift_t sf,
         shift_last_value := snap_shift_last_value sf\<rparr>"
      by (simp add: load_npz_trainer_def m2_def)
    have l2: "length (encoder m2) = length (init_encoder n)"
      "length (teacher m2) = length (init_teacher n)"
      "length (student m2) = length (init_student n)"
      using l1 len by (simp_all add: m2_def load_link_length)
    have f2: "update_flags (encoder m2) = replicate (length (encoder m2)) (Some False)"
      "update_flags (teacher m2) = replicate (length (teacher m2)) (Some False)"
      "update_flags (student m2) = replicate (length (student m2)) (Some True)"
      using f1 len by (simp_all add: m2_def load_link_flags load_link_length)
    have s2: "map save_param (student m2) = snap_student sf"
      "map save_param (teacher m2) = snap_teacher sf"
      "map save_param (encoder m2) = snap_encoder sf"
      using save_load_link[OF len(3) f1(3)] save_load_link[OF len(2) f1(2)]
        save_load_link[OF len(1) f1(1)] by (simp_all add: m2_def)
    have "target (optimizer_main tr) = Some m2" "hooks (optimizer_main tr) = [GradientClipping 10]"
      "extensions tr = make_extensions p device" "shift_init tr = None"
      "iteration tr = snap_iteration sf" "optimizer_t (optimizer_main tr) = snap_optimizer_t sf"
      "current_position tr = snap_current_position sf" "epoch tr = snap_epoch sf"
      "shift_t tr = snap_shift_t sf" "shift_last_value tr = snap_shift_last_value sf"
      "alpha (optimizer_main tr) = lr p / real (length (gpus a))"
      by (simp_all add: tr tr0)
    with False sf l2 f2 s2 show ?thesis
      by (intro exI[of _ m2] exI[of _ device]) simp
  qed
qed

lemma initialize_script:
  assumes "extensions tr = make_extensions p device" and "shift_init tr = None"
  shows "initialize tr =
           tr\<lparr>shift_init := Some (alpha (optimizer_main tr)),
              shift_last_value :=
                Some (case shift_last_value tr of None \<Rightarrow> alpha (optimizer_main tr)
                      | Some l \<Rightarrow> l),
              optimizer_main := (optimizer_main tr)
                \<lparr>alpha := (case shift_last_value tr of None \<Rightarrow> alpha (optimizer_main tr)
                           | Some l \<Rightarrow> l)\<rparr>\<rparr>"
  using assms by (simp add: initialize_def make_extensions_def set_attr_def Let_def)

section \<open>The run\<close>

subsection \<open>Disabled update rules\<close>

lemma set_grads_data: "map data (set_grads g l) = map data l"
proof -
  have "map data (map (\<lambda>(k, p). p\<lparr>grad := g k\<rparr>) (enumerate n l)) = map data l" for n
    by (induction l arbitrary: n) auto
  then show ?thesis by (simp add: set_grads_def)
qed

lemma set_grads_flags: "update_flags (set_grads g l) = update_flags l"
proof -
  have "update_flags (map (\<lambda>(k, p). p\<lparr>grad := g k\<rparr>) (enumerate n l)) = update_flags l" for n
    by (induction l arbitrary: n) (auto simp: update_flags_def)
  then show ?thesis by (simp add: set_grads_def)
qed

lemma set_grads_length: "length (set_grads g l) = length l"
  by (simp add: set_grads_def)

lemma call_hook_keeps:
  "map data (encoder (call_hook nm h m)) = map data (encoder m)"
  "map data (teacher (call_hook nm h m)) = map data (teacher m)"
  "update_flags (encoder (call_hook nm h m)) = update_flags (encoder m)"
  "update_flags (teacher (call_hook nm h m)) = update_flags (teacher m)"
  "length (encoder (call_hook nm h m)) = length (encoder m)"
  "length (teacher (call_hook nm h m)) = length (teacher m)"
proof -
  obtain th where h: "h = GradientClipping th" by (cases h)
  show "map data (encoder (call_hook nm h m)) = map data (encoder m)"
    "map data (teacher (call_hook nm h m)) = map data (teacher m)"
    "update_flags (encoder (call_hook nm h m)) = update_flags (encoder m)"
    "update_flags (teacher (call_hook nm h m)) = update_flags (teacher m)"
    "length (encoder (call_hook nm h m)) = length (encoder m)"
    "length (teacher (call_hook nm h m)) = length (teacher m)"
    unfolding h by (simp_all add: scale_grad_def update_flags_def split: option.splits)
qed

lemma call_hooks_keeps:
  "map data (encoder (call_hooks nm hs m)) = map data (encoder m)
   \<and> map data (teacher (call_hooks nm hs m)) = map data (teacher m)
   \<and> update_flags (encoder (call_hooks nm hs m)) = update_flags (encoder m)
   \<and> update_flags (teacher (call_hooks nm hs m)) = update_flags (teacher m)
   \<and> length (encoder (call_hooks nm hs m)) = length (encoder m)
   \<and> length (teacher (call_hooks nm hs m)) = length (teacher m)"
  unfolding call_hooks_def
  by (induction hs arbitrary: m) (simp_all add: call_hook_keeps)

lemma clipped_model_keeps:
  "map data (encoder (clipped_model nm i opt m)) = map data (encoder m)"
  "map data (teacher (clipped_model nm i opt m)) = map data (teacher m)"
  "update_flags (encoder (clipped_model nm i opt m)) = update_flags (encoder m)"
  "update_flags (teacher (clipped_model nm i opt m)) = update_flags (teacher m)"
  "length (encoder (clipped_model nm i opt m)) = length (encoder m)"
  "length (teacher (clipped_model nm i opt m)) = length (teacher m)"
  by (simp_all add: clipped_model_def call_hooks_keeps backward_def set_grads_data
      set_grads_flags set_grads_length)

lemma param_update_disabled:
  "map_option enabled (rule q) = Some False \<Longrightarrow> param_update nm a q = q"
  by (auto simp: param_update_def split: option.splits)

lemma all_disabled_update:
  assumes "all_disabled l"
  shows "map (param_update nm a) l = l"
proof (rule map_idI)
  fix q assume "q \<in> set l"
  then have "map_option enabled (rule q) \<in> set (update_flags l)"
    by (auto simp: update_flags_def)
  with assms have "map_option enabled (rule q) = Some False"
    by (auto simp: all_disabled_def)
  then show "param_update nm a q = q" by (rule param_update_disabled)
qed

lemma updater_update_frozen:
  assumes "frozen_ready tr"
  shows "\<exists>tr'. updater_update nm tr = Inr tr' \<and> frozen_ready tr'
           \<and> frozen_parameter_set tr' = frozen_parameter_set tr
           \<and> iteration tr' = iteration tr + 1
           \<and> extensions tr' = extensions tr
           \<and> hooks (optimizer_main tr') = hooks (optimizer_main tr)
           \<and> alpha (optimizer_main tr') = alpha (optimizer_main tr)
           \<and> shift_t tr' = shift_t tr \<and> shift_init tr' = shift_init tr"
proof -
  from assms obtain m where m: "target (optimizer_main tr) = Some m"
    and e: "all_disabled (encoder m)" and t: "all_disabled (teacher m)"
    and s: "shift_init tr \<noteq> None"
    by (auto simp: frozen_ready_def split: option.splits)
  define m1 where "m1 = clipped_model nm (iteration tr) (optimizer_main tr) m"
  have e1: "all_disabled (encoder m1)" and t1: "all_disabled (teacher m1)"
    using e t unfolding m1_def all_disabled_def by (simp_all add: clipped_model_keeps)
  have d: "map data (encoder m1) = map data (encoder m)" "map data (teacher m1) = map data (teacher m)"
    unfolding m1_def by (simp_all add: clipped_model_keeps)
  obtain pos ep where pe:
    "next_position nm (train_iter tr) (current_position tr, epoch tr) = (pos, ep)"
    by (cases "next_position nm (train_iter tr) (current_position tr, epoch tr)")
  define tr1 where "tr1 = tr\<lparr>optimizer_main :=
      (optimizer_main tr)\<lparr>optimizer_t := optimizer_t (optimizer_main tr) + 1,
         target := Some \<lparr> encoder = encoder m1, teacher = teacher m1,
           student = map (param_update nm (alpha (optimizer_main tr))) (student m1) \<rparr>\<rparr>,
      iteration := iteration tr + 1, current_position := pos, epoch := ep\<rparr>"
  have u: "updater_update nm tr = Inr tr1"
    unfolding updater_update_def optimizer_update_def tr1_def
    by (simp add: m pe Let_def m1_def[symmetric] all_disabled_update[OF e1]
        all_disabled_update[OF t1])
  have "frozen_ready tr1"
    by (simp add: tr1_def frozen_ready_def e1 t1 s)
  moreover have "frozen_parameter_set tr1 = frozen_parameter_set tr"
    by (simp add: tr1_def frozen_parameter_set_def m d)
  moreover have "iteration tr1 = iteration tr + 1" "extensions tr1 = extensions tr"
    "hooks (optimizer_main tr1) = hooks (optimizer_main tr)"
    "alpha (optimizer_main tr1) = alpha (optimizer_main tr)"
    "shift_t tr1 = shift_t tr" "shift_init tr1 = shift_init tr"
    by (simp_all add: tr1_def)
  ultimately show ?thesis using u by simp
qed

lemma run_extension_keeps:
  assumes "run_extension nm e tr = Inr tr'"
  shows "target (optimizer_main tr') = target (optimizer_main tr)
       \<and> hooks (optimizer_main tr') = hooks (optimizer_main tr)
       \<and> optimizer_t (optimizer_main tr') = optimizer_t (optimizer_main tr)
       \<and> iteration tr' = iteration tr \<and> extensions tr' = extensions tr
       \<and> shift_init tr' = shift_init tr"
proof (cases e)
  case (ExponentialShift attr rate)
  with assms show ?thesis
    by (auto simp: set_attr_def Let_def split: option.splits)
next
  case (Evaluator device)
  with assms show ?thesis
    by (auto simp: evaluate_def split: option.splits)
next
  case snapshot
  with assms show ?thesis
    by (auto simp: save_npz_trainer_def split: option.splits sum.splits)
qed (use assms in auto)

lemma run_extension_total:
  assumes "target (optimizer_main tr) \<noteq> None" and "shift_init tr \<noteq> None"
  shows "\<exists>tr'. run_extension nm e tr = Inr tr'"
proof (cases e)
  case (ExponentialShift attr rate)
  with assms show ?thesis by (auto simp: Let_def)
next
  case (Evaluator device)
  with assms show ?thesis by (auto simp: evaluate_def)
next
  case snapshot
  with assms show ?thesis by (auto simp: save_npz_trainer_def)
qed auto

lemma frozen_ready_cong:
  "target (optimizer_main tr') = target (optimizer_main tr) \<Longrightarrow> shift_init tr' = shift_init tr
     \<Longrightarrow> frozen_ready tr' = frozen_ready tr"
  unfolding frozen_ready_def by (auto split: option.splits)

lemma frozen_parameter_set_cong:
  "target (optimizer_main tr') = target (optimizer_main tr)
     \<Longrightarrow> frozen_parameter_set tr' = frozen_parameter_set tr"
  unfolding frozen_parameter_set_def by simp

lemma run_extensions_frozen:
  assumes "frozen_ready tr"
  shows "\<exists>tr'. run_extensions nm es tr = Inr tr' \<and> frozen_ready tr'
           \<and> frozen_parameter_set tr' = frozen_parameter_set tr
           \<and> iteration tr' = iteration tr
           \<and> extensions tr' = extensions tr
           \<and> hooks (optimizer_main tr') = hooks (optimizer_main tr)"
  using assms
proof (induction es arbitrary: tr)
  case Nil
  then show ?case by simp
next
  case (Cons x es)
  obtain e trg where x: "x = (e, trg)" by (cases x)
  show ?case
  proof (cases "trg (iteration tr)")
    case False
    with Cons x show ?thesis by simp
  next
    case True
    from Cons.prems have "target (optimizer_main tr) \<noteq> None" "shift_init tr \<noteq> None"
      by (auto simp: frozen_ready_def split: option.splits)
    then obtain tr1 where r: "run_extension nm e tr = Inr tr1"
      using run_extension_total by blast
    note k = run_extension_keeps[OF r]
    have f1: "frozen_ready tr1"
      using Cons.prems frozen_ready_cong[of tr1 tr] k by simp
    have p1: "frozen_parameter_set tr1 = frozen_parameter_set tr"
      using frozen_parameter_set_cong[of tr1 tr] k by simp
    from Cons.IH[OF f1] obtain tr' where
      "run_extensions nm es tr1 = Inr tr'" "frozen_ready tr'"
      "frozen_parameter_set tr' = frozen_parameter_set tr1"
      "iteration tr' = iteration tr1" "extensions tr' = extensions tr1"
      "hooks (optimizer_main tr') = hooks (optimizer_main tr1)" by blast
    then show ?thesis
      using True r x k p1 by simp
  qed
qed

lemma trainer_step_frozen:
  assumes "frozen_ready tr"
  shows "\<exists>tr'. trainer_step nm tr = Inr tr' \<and> frozen_ready tr'
           \<and> frozen_parameter_set tr' = frozen_parameter_set tr
           \<and> iteration tr' = iteration tr + 1
           \<and> extensions tr' = extensions tr
           \<and> hooks (optimizer_main tr') = hooks (optimizer_main tr)"
proof -
  from updater_update_frozen[OF assms, of nm] obtain tr1 where
    u: "updater_update nm tr = Inr tr1" and f: "frozen_ready tr1"
    and k: "frozen_parameter_set tr1 = frozen_parameter_set tr"
      "iteration tr1 = iteration tr + 1" "extensions tr1 = extensions tr"
      "hooks (optimizer_main tr1) = hooks (optimizer_main tr)"
    by blast
  from run_extensions_frozen[OF f, of nm "extensions tr1"] obtain tr' where
    "run_extensions nm (extensions tr1) tr1 = Inr tr'" "frozen_ready tr'"
    "frozen_parameter_set tr' = frozen_parameter_set tr1"
    "iteration tr' = iteration tr1" "extensions tr' = extensions tr1"
    "hooks (optimizer_main tr') = hooks (optimizer_main tr1)" by blast
  then show ?thesis using u k by (simp add: trainer_step_def)
qed

lemma run_iterations_frozen:
  assumes "frozen_ready tr"
  shows "\<exists>tr'. run_iterations nm N tr = Inr tr' \<and> frozen_ready tr'
           \<and> frozen_parameter_set tr' = frozen_parameter_set tr
           \<and> iteration tr' = iteration tr + N
           \<and> extensions tr' = extensions tr
           \<and> hooks (optimizer_main tr') = hooks (optimizer_main tr)"
  using assms
proof (induction N arbitrary: tr)
  case 0
  then show ?case by simp
next
  case (Suc N)
  from trainer_step_frozen[OF Suc.prems, of nm] obtain tr1 where
    s: "trainer_step nm tr = Inr tr1" and f: "frozen_ready tr1"
    and k: "frozen_parameter_set tr1 = frozen_parameter_set tr"
      "iteration tr1 = iteration tr + 1" "extensions tr1 = extensions tr"
      "hooks (optimizer_main tr1) = hooks (optimizer_main tr)"
    by blast
  from Suc.IH[OF f] obtain tr' where
    "run_iterations nm N tr1 = Inr tr'" "frozen_ready tr'"
    "frozen_parameter_set tr' = frozen_parameter_set tr1"
    "iteration tr' = iteration tr1 + N" "extensions tr' = extensions tr1"
    "hooks (optimizer_main tr') = hooks (optimizer_main tr1)" by blast
  then show ?case using s k by simp
qed

lemma main_ready:
  assumes "main cl p n files = Inr tr"
  shows "frozen_ready (initialize tr)
       \<and> frozen_parameter_set (initialize tr) = frozen_parameter_set tr
       \<and> frozen_parameter_set tr \<noteq> None
       \<and> iteration (initialize tr) = iteration tr
       \<and> hooks (optimizer_main (initialize tr)) = [GradientClipping 10]"
proof -
  from assms obtain a where "script a p n files = Inr tr" by (rule main_Inr)
  from script_trainer[OF this] obtain m device where
    t: "target (optimizer_main tr) = Some m"
    and f: "update_flags (encoder m) = replicate (length (encoder m)) (Some False)"
      "update_flags (teacher m) = replicate (length (teacher m)) (Some False)"
    and h: "hooks (optimizer_main tr) = [GradientClipping 10]"
    and e: "extensions tr = make_extensions p device" and s: "shift_init tr = None"
    by blast
  note i = initialize_script[OF e s]
  show ?thesis
    by (simp add: i frozen_ready_def frozen_parameter_set_def t f h all_disabled_def)
qed

lemma trainer_run_total:
  assumes "main cl p n files = Inr tr"
  shows "\<not> isl (trainer_run nm N tr)"
proof -
  from main_ready[OF assms] have "frozen_ready (initialize tr)" by simp
  from run_iterations_frozen[OF this, of nm N] show ?thesis
    by (auto simp: trainer_run_def)
qed

subsection \<open>The annealing extension\<close>

lemma run_extension_no_shift:
  assumes "\<not> is_shift e" and "run_extension nm e tr = Inr tr'"
  shows "alpha (optimizer_main tr') = alpha (optimizer_main tr) \<and> shift_t tr' = shift_t tr"
proof (cases e)
  case (ExponentialShift attr rate)
  with assms show ?thesis by simp
next
  case (Evaluator device)
  with assms show ?thesis by (auto simp: evaluate_def split: option.splits)
next
  case snapshot
  with assms show ?thesis by (auto simp: save_npz_trainer_def split: option.splits sum.splits)
qed (use assms in auto)

lemma run_extensions_no_shift:
  assumes "\<forall>x\<in>set es. \<not> is_shift (fst x)" and "run_extensions nm es tr = Inr tr'"
  shows "alpha (optimizer_main tr') = alpha (optimizer_main tr) \<and> shift_t tr' = shift_t tr
       \<and> shift_init tr' = shift_init tr \<and> iteration tr' = iteration tr
       \<and> extensions tr' = extensions tr"
  using assms
proof (induction es arbitrary: tr)
  case Nil
  then show ?case by simp
next
  case (Cons x es)
  obtain e trg where x: "x = (e, trg)" by (cases x)
  show ?case
  proof (cases "trg (iteration tr)")
    case False
    with Cons x show ?thesis by simp
  next
    case True
    with Cons.prems x obtain tr1 where r: "run_extension nm e tr = Inr tr1"
      and rs: "run_extensions nm es tr1 = Inr tr'"
      by (auto split: sum.splits)
    from Cons.prems x have ns: "\<not> is_shift e" by simp
    from Cons.prems have "\<forall>x\<in>set es. \<not> is_shift (fst x)" by simp
    from Cons.IH[OF this rs] run_extension_no_shift[OF ns r] run_extension_keeps[OF r]
    show ?thesis by simp
  qed
qed

lemma make_extensions_split:
  "make_extensions p d = (ExponentialShift ''alpha'' 0.5, annealing_interval p) # tl (make_extensions p d)"
  "\<forall>x\<in>set (tl (make_extensions p d)). \<not> is_shift (fst x)"
  by (simp_all add: make_extensions_def)

lemma run_extensions_script:
  assumes "run_extensions nm (make_extensions p d) tr = Inr tr'" and "shift_init tr = Some a0"
  shows "shift_t tr' = shift_t tr + (if annealing_interval p (iteration tr) then 1 else 0)
       \<and> alpha (optimizer_main tr') =
           (if annealing_interval p (iteration tr) then a0 * (1 / 2) ^ (shift_t tr + 1)
            else alpha (optimizer_main tr))
       \<and> shift_init tr' = Some a0 \<and> iteration tr' = iteration tr
       \<and> extensions tr' = extensions tr"
proof (cases "annealing_interval p (iteration tr)")
  case False
  with assms(1) have "run_extensions nm (tl (make_extensions p d)) tr = Inr tr'"
    by (subst (asm) make_extensions_split(1)) simp
  from run_extensions_no_shift[OF make_extensions_split(2) this] False assms(2)
  show ?thesis by simp
next
  case True
  define tr1 where "tr1 = tr\<lparr>shift_t := shift_t tr + 1,
      shift_last_value := Some (a0 * (1 / 2) ^ (shift_t tr + 1)),
      optimizer_main := (optimizer_main tr)\<lparr>alpha := a0 * (1 / 2) ^ (shift_t tr + 1)\<rparr>\<rparr>"
  have "run_extension nm (ExponentialShift ''alpha'' 0.5) tr = Inr tr1"
    using assms(2) by (simp add: tr1_def set_attr_def Let_def)
  with assms(1) True have "run_extensions nm (tl (make_extensions p d)) tr1 = Inr tr'"
    by (subst (asm) make_extensions_split(1)) simp
  from run_extensions_no_shift[OF make_extensions_split(2) this] True assms(2)
  show ?thesis by (simp add: tr1_def)
qed

lemma updater_update_keeps:
  assumes "updater_update nm tr = Inr tr'"
  shows "alpha (optimizer_main tr') = alpha (optimizer_main tr) \<and> shift_t tr' = shift_t tr
       \<and> shift_init tr' = shift_init tr \<and> iteration tr' = iteration tr + 1
       \<and> extensions tr' = extensions tr"
  using assms
  by (auto simp: updater_update_def optimizer_update_def Let_def
      split: option.splits sum.splits prod.splits)

lemma trainer_step_annealing:
  assumes "annealing_ready p d a0 tr" and "trainer_step nm tr = Inr tr'"
  shows "annealing_ready p d a0 tr' \<and> iteration tr' = iteration tr + 1
       \<and> shift_t tr' = shift_t tr + (if annealing_interval p (Suc (iteration tr)) then 1 else 0)
       \<and> alpha (optimizer_main tr') =
           (if annealing_interval p (Suc (iteration tr)) then a0 * (1 / 2) ^ shift_t tr'
            else alpha (optimizer_main tr))"
proof -
  from assms(2) obtain tr1 where u: "updater_update nm tr = Inr tr1"
    and r: "run_extensions nm (extensions tr1) tr1 = Inr tr'"
    by (auto simp: trainer_step_def split: sum.splits)
  note k = updater_update_keeps[OF u]
  from assms(1) k have e: "extensions tr1 = make_extensions p d" and s: "shift_init tr1 = Some a0"
    by (simp_all add: annealing_ready_def)
  from r e have "run_extensions nm (make_extensions p d) tr1 = Inr tr'" by simp
  from run_extensions_script[OF this s] assms(1) k e show ?thesis
    by (simp add: annealing_ready_def)
qed

lemma annealing_count_Suc:
  "annealing_count p i (Suc N)
     = (if annealing_interval p (Suc i) then 1 else 0) + annealing_count p (Suc i) N"
proof -
  have "[Suc i ..< Suc (i + Suc N)] = Suc i # [Suc (Suc i) ..< Suc (Suc i + N)]"
    by (simp add: upt_conv_Cons)
  then show ?thesis by (simp add: annealing_count_def)
qed

lemma run_iterations_annealing:
  assumes "annealing_ready p d a0 tr" and "run_iterations nm N tr = Inr tr'"
  shows "annealing_ready p d a0 tr'
       \<and> shift_t tr' = shift_t tr + annealing_count p (iteration tr) N
       \<and> alpha (optimizer_main tr') =
           (if 0 < annealing_count p (iteration tr) N then a0 * (1 / 2) ^ shift_t tr'
            else alpha (optimizer_main tr))"
  using assms
proof (induction N arbitrary: tr)
  case 0
  then show ?case by (simp add: annealing_count_def)
next
  case (Suc N)
  from Suc.prems(2) obtain tr1 where s: "trainer_step nm tr = Inr tr1"
    and r: "run_iterations nm N tr1 = Inr tr'"
    by (auto split: sum.splits)
  note k = trainer_step_annealing[OF Suc.prems(1) s]
  from k have a1: "annealing_ready p d a0 tr1" by simp
  note ih = Suc.IH[OF a1 r]
  show ?case
  proof (cases "0 < annealing_count p (iteration tr1) N")
    case True
    with ih k show ?thesis by (simp add: annealing_count_Suc)
  next
    case False
    with ih k show ?thesis by (simp add: annealing_count_Suc)
  qed
qed

section \<open>The claims\<close>

subsection \<open>C1: the frozen parameters\<close>

text \<open>
  C1. After any number \<open>N\<close> of completed training steps the arrays of the teacher and of
  the conditioning encoder are what they were when the run started: no step writes a
  frozen parameter. The run does not fail either, whatever the gradients, Adam's
  arithmetic and the triggers are.
\<close>

theorem freeze_invariant:
  assumes "main cl p n files = Inr tr"
  shows "\<exists>tr'. trainer_run nm N tr = Inr tr'
           \<and> frozen_parameter_set tr' = frozen_parameter_set tr
           \<and> frozen_parameter_set tr \<noteq> None"
proof -
  note r = main_ready[OF assms]
  from r have "frozen_ready (initialize tr)" by simp
  from run_iterations_frozen[OF this, of nm N] obtain tr' where
    "run_iterations nm N (initialize tr) = Inr tr'"
    "frozen_parameter_set tr' = frozen_parameter_set (initialize tr)" by blast
  with r show ?thesis by (simp add: trainer_run_def)
qed

theorem freeze_invariant_witness:
  "\<not> isl (main no_options example_params example_networks no_files)
   \<and> \<not> isl (trainer_run example_numerics 3
              (projr (main no_options example_params example_networks no_files)))
   \<and> frozen_parameter_set (projr (trainer_run example_numerics 3
        (projr (main no_options example_params example_networks no_files))))
       = Some ([[2]], [[3]])
   \<and> map data (trainable_parameter_set
        (projr (main no_options example_params example_networks no_files))) = [[1]]
   \<and> map data (trainable_parameter_set (projr (trainer_run example_numerics 3
        (projr (main no_options example_params example_networks no_files)))))
       = [[995 / 1000]]"
proof -
  note m = Inr_projr[OF main_example]
  have s0: "map data (trainable_parameter_set
        (projr (main no_options example_params example_networks no_files))) = [[1]]"
    by (simp add: example_defs build_defs trainable_parameter_set_def)
  from freeze_invariant[OF m, of example_numerics 3] show ?thesis
    using main_example frozen_example s0 student_example by auto
qed

subsection \<open>C2: the update target\<close>

text \<open>
  C2. The claim: the optimizer is constructed with exactly the student's parameters as its
  update target, and never refers to the frozen subgraphs. The script calls
  \<^verbatim>\<open>optimizer.setup(model)\<close> with the whole \<^verbatim>\<open>DistilModel\<close>: on the example input the
  update target holds the encoder's and the teacher's parameter besides the student's.
\<close>

theorem update_target_counterexample:
  "\<not> isl (main no_options example_params example_networks no_files)
   \<and> update_target_set (projr (main no_options example_params example_networks no_files))
       = [\<lparr> data = [2], grad = [0], rule = Some \<lparr> enabled = False, rule_t = 0, rule_state = [] \<rparr> \<rparr>,
          \<lparr> data = [3], grad = [0], rule = Some \<lparr> enabled = False, rule_t = 0, rule_state = [] \<rparr> \<rparr>,
          \<lparr> data = [1], grad = [0], rule = Some \<lparr> enabled = True, rule_t = 0, rule_state = [] \<rparr> \<rparr>]
   \<and> trainable_parameter_set (projr (main no_options example_params example_networks no_files))
       = [\<lparr> data = [1], grad = [0], rule = Some \<lparr> enabled = True, rule_t = 0, rule_state = [] \<rparr> \<rparr>]
   \<and> update_target_set (projr (main no_options example_params example_networks no_files))
       \<noteq> trainable_parameter_set (projr (main no_options example_params example_networks no_files))"
  by (simp add: example_defs build_defs update_target_set_def trainable_parameter_set_def
      model_params_def)

text \<open>
  C2, amended. The update target of the optimizer is the whole model: the parameters of
  the encoder, of the teacher and of the student. The encoder and the teacher are kept
  out of the updates by a runtime flag: every one of their parameters has an update rule
  whose \<^verbatim>\<open>enabled\<close> is cleared (\<^verbatim>\<open>disable_update\<close>, lines 86-87), and every parameter
  of the student has an enabled one.
\<close>

theorem update_target_whole_model:
  assumes "main cl p n files = Inr tr"
  shows "\<exists>m. target (optimizer_main tr) = Some m
           \<and> update_target_set tr = encoder m @ teacher m @ student m
           \<and> trainable_parameter_set tr = student m
           \<and> length (encoder m) = length (init_encoder n)
           \<and> length (teacher m) = length (init_teacher n)
           \<and> length (student m) = length (init_student n)
           \<and> update_flags (encoder m) = replicate (length (encoder m)) (Some False)
           \<and> update_flags (teacher m) = replicate (length (teacher m)) (Some False)
           \<and> update_flags (student m) = replicate (length (student m)) (Some True)"
proof -
  from assms obtain a where "script a p n files = Inr tr" by (rule main_Inr)
  from script_trainer[OF this] obtain m where
    "target (optimizer_main tr) = Some m"
    "length (encoder m) = length (init_encoder n)"
    "length (teacher m) = length (init_teacher n)"
    "length (student m) = length (init_student n)"
    "update_flags (encoder m) = replicate (length (encoder m)) (Some False)"
    "update_flags (teacher m) = replicate (length (teacher m)) (Some False)"
    "update_flags (student m) = replicate (length (student m)) (Some True)"
    by blast
  then show ?thesis
    by (simp add: update_target_set_def trainable_parameter_set_def model_params_def)
qed

theorem update_target_whole_model_witness:
  "\<not> isl (main no_options example_params example_networks no_files)
   \<and> update_flags (update_target_set (projr (main no_options example_params example_networks no_files)))
       = [Some False, Some False, Some True]"
proof -
  note m = Inr_projr[OF main_example]
  from update_target_whole_model[OF m] obtain m' :: DistilModel where
    u: "update_target_set (projr (main no_options example_params example_networks no_files))
       = encoder m' @ teacher m' @ student m'"
    and l: "length (encoder m') = length (init_encoder example_networks)"
      "length (teacher m') = length (init_teacher example_networks)"
      "length (student m') = length (init_student example_networks)"
    and f: "update_flags (encoder m') = replicate (length (encoder m')) (Some False)"
      "update_flags (teacher m') = replicate (length (teacher m')) (Some False)"
      "update_flags (student m') = replicate (length (student m')) (Some True)"
    by blast
  have "update_flags (encoder m' @ teacher m' @ student m')
      = update_flags (encoder m') @ update_flags (teacher m') @ update_flags (student m')"
    by (simp add: update_flags_def)
  also have "\<dots> = [Some False, Some False, Some True]"
    unfolding f l by (simp add: example_networks_def)
  finally show ?thesis using main_example u by simp
qed

subsection \<open>C3: the learning rate handed to the optimizer\<close>

text \<open>
  C3. For every device list the command line can give (it is never empty), the learning
  rate that the script hands to Adam, and that the optimizer holds when the run starts,
  is the configured rate \<^verbatim>\<open>params.lr\<close> divided by the number of devices.
\<close>

theorem learning_rate_scaled:
  assumes "parse_args cl = Inr a" and "main cl p n files = Inr tr"
  shows "gpus a \<noteq> [] \<and> alpha (optimizer_main tr) = lr p / real (length (gpus a))"
proof -
  from assms obtain m opt its upd device where
    o: "make_optimizer p a m = Inr opt" and
    r: "resume_trainer a files (make_trainer p opt its upd device) = Inr tr"
    by (auto elim!: main_Inr script_Inr)
  have "alpha (optimizer_main tr) = alpha opt"
    using resume_trainer_fields(1)[OF r] by (simp add: make_trainer_def)
  with make_optimizer_alpha[OF o] show ?thesis by simp
qed

theorem learning_rate_scaled_witness:
  "parse_args no_options = Inr \<lparr> gpus = [-1], process = 1, prefetch = 64, resume = [] \<rparr>
   \<and> \<not> isl (main no_options example_params example_networks no_files)
   \<and> alpha (optimizer_main (projr (main no_options example_params example_networks no_files)))
       = 1 / 1000"
proof -
  have p: "parse_args no_options = Inr \<lparr> gpus = [-1], process = 1, prefetch = 64, resume = [] \<rparr>"
    by (simp add: parse_args_def no_options_def)
  note m = Inr_projr[OF main_example]
  from learning_rate_scaled[OF p m] show ?thesis
    using p main_example by (simp add: example_params_def)
qed

subsection \<open>C4: annealing\<close>

text \<open>
  C4. The claim: each firing of the annealing trigger halves the learning rate. When the
  extension fires it does not halve the current value: it sets \<^verbatim>\<open>alpha\<close> to
  \<^verbatim>\<open>init * 0.5 ** t\<close>, where \<^verbatim>\<open>init\<close> is the \<^verbatim>\<open>alpha\<close> of line 83 of the present run
  and \<^verbatim>\<open>t\<close> the number of its calls, the calls counted in a loaded snapshot included.
  On the example, the snapshot of a run on one device (two firings, \<^verbatim>\<open>alpha\<close> 1/4000) is
  resumed on two devices: after one iteration without a firing \<^verbatim>\<open>alpha\<close> is 1/4000, and
  the one firing of the next iteration makes it 1/16000, a quarter.
\<close>

theorem annealing_counterexample:
  "\<not> isl (main resume_two_gpus example_params example_networks example_files)
   \<and> annealing_count example_params 4 1 = 0
   \<and> annealing_count example_params 4 2 = 1
   \<and> \<not> isl (trainer_run example_numerics 1
              (projr (main resume_two_gpus example_params example_networks example_files)))
   \<and> \<not> isl (trainer_run example_numerics 2
              (projr (main resume_two_gpus example_params example_networks example_files)))
   \<and> iteration (projr (trainer_run example_numerics 1
        (projr (main resume_two_gpus example_params example_networks example_files)))) = 5
   \<and> alpha (optimizer_main (projr (trainer_run example_numerics 1
        (projr (main resume_two_gpus example_params example_networks example_files)))))
       = 1 / 4000
   \<and> iteration (projr (trainer_run example_numerics 2
        (projr (main resume_two_gpus example_params example_networks example_files)))) = 6
   \<and> alpha (optimizer_main (projr (trainer_run example_numerics 2
        (projr (main resume_two_gpus example_params example_networks example_files)))))
       = 1 / 16000
   \<and> alpha (optimizer_main (projr (trainer_run example_numerics 2
        (projr (main resume_two_gpus example_params example_networks example_files)))))
       \<noteq> alpha (optimizer_main (projr (trainer_run example_numerics 1
        (projr (main resume_two_gpus example_params example_networks example_files))))) / 2"
proof -
  have c: "annealing_count example_params 4 1 = 0" "annealing_count example_params 4 2 = 1"
    by (simp_all add: annealing_count_def example_params_def upt_conv_Cons)
  note m = Inr_projr[OF main_resume_two_gpus]
  note t1 = trainer_run_total[OF m, of example_numerics 1]
  note t2 = trainer_run_total[OF m, of example_numerics 2]
  have r: "iteration (projr (trainer_run example_numerics 1
        (projr (main resume_two_gpus example_params example_networks example_files)))) = 5"
    "alpha (optimizer_main (projr (trainer_run example_numerics 1
        (projr (main resume_two_gpus example_params example_networks example_files)))))
       = 1 / 4000"
    "iteration (projr (trainer_run example_numerics 2
        (projr (main resume_two_gpus example_params example_networks example_files)))) = 6"
    "alpha (optimizer_main (projr (trainer_run example_numerics 2
        (projr (main resume_two_gpus example_params example_networks example_files)))))
       = 1 / 16000"
    by (simp_all add: resume_two_gpus_def example_files_def example_snapshot_def example_defs
        build_defs load_npz_trainer_def load_link_def load_param_def run_defs
        example_numerics_def enumerate_eq_zip run_iterations_numeral sqrt_9 cuda_use_def
        power_divide)
  from main_resume_two_gpus c t1 t2 show ?thesis unfolding r by simp
qed

text \<open>
  C4, amended. Each firing of the annealing trigger sets Adam's \<^verbatim>\<open>alpha\<close> to the
  learning rate of line 83 (\<^verbatim>\<open>params.lr\<close> divided by the number of devices) times
  \<open>(1/2)^t\<close>, where \<open>t\<close> counts the firings, those counted in a loaded snapshot included,
  whatever the data, the gradients and the other triggers are; until the first firing
  \<^verbatim>\<open>alpha\<close> is the last value of the loaded snapshot, or its initial value. In a run
  that starts without a snapshot every firing therefore halves \<^verbatim>\<open>alpha\<close>: after \<open>N\<close>
  iterations in which the trigger fired \<open>k\<close> times, \<^verbatim>\<open>alpha\<close> is its initial value times
  \<open>(1/2)^k\<close>.
\<close>

theorem annealing_schedule:
  assumes "parse_args cl = Inr a" and "main cl p n files = Inr tr"
  shows "\<exists>tr'. trainer_run nm N tr = Inr tr'
           \<and> shift_t tr' = shift_t tr + annealing_count p (iteration tr) N
           \<and> (0 < annealing_count p (iteration tr) N \<longrightarrow>
                alpha (optimizer_main tr')
                  = lr p / real (length (gpus a)) * (1 / 2) ^ shift_t tr')
           \<and> (annealing_count p (iteration tr) N = 0 \<longrightarrow>
                alpha (optimizer_main tr')
                  = (case shift_last_value tr of None \<Rightarrow> alpha (optimizer_main tr)
                     | Some v \<Rightarrow> v))
           \<and> (resume a = [] \<longrightarrow>
                alpha (optimizer_main tr')
                  = alpha (optimizer_main tr) * (1 / 2) ^ annealing_count p 0 N)"
proof -
  from assms have s: "script a p n files = Inr tr" by (simp add: main_def)
  from script_trainer[OF s] obtain device where
    e: "extensions tr = make_extensions p device" and i: "shift_init tr = None"
    and al: "alpha (optimizer_main tr) = lr p / real (length (gpus a))"
    and z: "resume a = [] \<longrightarrow> iteration tr = 0 \<and> shift_t tr = 0 \<and> shift_last_value tr = None"
    by blast
  note ini = initialize_script[OF e i]
  have a: "annealing_ready p device (alpha (optimizer_main tr)) (initialize tr)"
    by (simp add: ini annealing_ready_def e)
  have k: "iteration (initialize tr) = iteration tr" "shift_t (initialize tr) = shift_t tr"
    by (simp_all add: ini)
  from main_ready[OF assms(2)] have "frozen_ready (initialize tr)" by simp
  from run_iterations_frozen[OF this, of nm N] obtain tr' where
    r: "run_iterations nm N (initialize tr) = Inr tr'" by blast
  note ra = run_iterations_annealing[OF a r]
  have c1: "shift_t tr' = shift_t tr + annealing_count p (iteration tr) N"
    using ra k by simp
  have c2: "0 < annealing_count p (iteration tr) N \<longrightarrow>
      alpha (optimizer_main tr') = lr p / real (length (gpus a)) * (1 / 2) ^ shift_t tr'"
    using ra k al by simp
  have c0: "annealing_count p (iteration tr) N = 0 \<longrightarrow>
      alpha (optimizer_main tr')
        = (case shift_last_value tr of None \<Rightarrow> alpha (optimizer_main tr) | Some v \<Rightarrow> v)"
    using ra k by (simp add: ini)
  have c3: "resume a = [] \<longrightarrow>
      alpha (optimizer_main tr') = alpha (optimizer_main tr) * (1 / 2) ^ annealing_count p 0 N"
  proof
    assume "resume a = []"
    with z have z0: "iteration tr = 0" "shift_t tr = 0" "shift_last_value tr = None"
      by simp_all
    then have "alpha (optimizer_main (initialize tr)) = alpha (optimizer_main tr)"
      by (simp add: ini)
    with ra k z0 show "alpha (optimizer_main tr')
        = alpha (optimizer_main tr) * (1 / 2) ^ annealing_count p 0 N"
      by simp
  qed
  from r c1 c2 c0 c3 show ?thesis by (simp add: trainer_run_def)
qed

theorem annealing_schedule_witness:
  "parse_args no_options = Inr \<lparr> gpus = [-1], process = 1, prefetch = 64, resume = [] \<rparr>
   \<and> \<not> isl (main no_options example_params example_networks no_files)
   \<and> annealing_count example_params 0 4 = 2
   \<and> \<not> isl (trainer_run example_numerics 4
              (projr (main no_options example_params example_networks no_files)))
   \<and> shift_t (projr (trainer_run example_numerics 4
        (projr (main no_options example_params example_networks no_files)))) = 2
   \<and> alpha (optimizer_main (projr (trainer_run example_numerics 4
        (projr (main no_options example_params example_networks no_files))))) = 1 / 4000"
proof -
  note m = Inr_projr[OF main_example]
  have c: "annealing_count example_params 0 4 = 2"
    by (simp add: annealing_count_def example_params_def upt_conv_Cons)
  have i0: "iteration (projr (main no_options example_params example_networks no_files)) = 0"
    "shift_t (projr (main no_options example_params example_networks no_files)) = 0"
    by (simp_all add: example_defs build_defs)
  from annealing_schedule[OF parse_no_options m, of example_numerics 4] obtain tr' where
    r: "trainer_run example_numerics 4
          (projr (main no_options example_params example_networks no_files)) = Inr tr'"
    and st: "shift_t tr' = 2"
    and al: "alpha (optimizer_main tr')
          = alpha (optimizer_main (projr (main no_options example_params example_networks no_files)))
            * (1 / 2) ^ annealing_count example_params 0 4"
    unfolding i0 c by auto
  have "alpha (optimizer_main tr') = 1 / 4000"
    unfolding al c alpha_example by (simp add: power2_eq_square)
  with r st parse_no_options main_example c show ?thesis by simp
qed

subsection \<open>C5: resuming from a snapshot\<close>

text \<open>
  C5. With a snapshot path on the command line the script loads the snapshot before the
  run starts, and the trainer that the run receives holds everything the file holds: a
  snapshot taken of it at once is the file again. In particular the student's arrays and
  update-rule states, the optimizer's step counter, the iteration counter, the epoch
  counter and position of the training iterator and the counter and last value of the
  annealing extension are those of the file, and after \<open>k\<close> further iterations the
  iteration counter is the saved one plus \<open>k\<close>.
\<close>

theorem resume_restores:
  assumes "parse_args cl = Inr a" and "resume a \<noteq> []" and "files (resume a) = Some sf"
    and "main cl p n files = Inr tr"
  shows "save_npz_trainer tr = Inr sf
       \<and> map save_param (trainable_parameter_set tr) = snap_student sf
       \<and> optimizer_t (optimizer_main tr) = snap_optimizer_t sf
       \<and> iteration tr = snap_iteration sf
       \<and> epoch tr = snap_epoch sf
       \<and> current_position tr = snap_current_position sf
       \<and> shift_t tr = snap_shift_t sf
       \<and> shift_last_value tr = snap_shift_last_value sf
       \<and> (\<exists>tr'. trainer_run nm k tr = Inr tr' \<and> iteration tr' = snap_iteration sf + k)"
proof -
  from assms(1,4) have s: "script a p n files = Inr tr"
    by (simp add: main_def)
  from script_trainer[OF s] assms(2,3) obtain m where
    m: "target (optimizer_main tr) = Some m"
    "map save_param (student m) = snap_student sf"
    "map save_param (teacher m) = snap_teacher sf"
    "map save_param (encoder m) = snap_encoder sf"
    "optimizer_t (optimizer_main tr) = snap_optimizer_t sf"
    "iteration tr = snap_iteration sf"
    "current_position tr = snap_current_position sf" "epoch tr = snap_epoch sf"
    "shift_t tr = snap_shift_t sf" "shift_last_value tr = snap_shift_last_value sf"
    by blast
  have sv: "save_npz_trainer tr = Inr sf"
    using m by (cases sf) (simp add: save_npz_trainer_def)
  note r = main_ready[OF assms(4)]
  from r have "frozen_ready (initialize tr)" by simp
  from run_iterations_frozen[OF this, of nm k] obtain tr' where
    "run_iterations nm k (initialize tr) = Inr tr'"
    "iteration tr' = iteration (initialize tr) + k" by blast
  with r m sv show ?thesis by (simp add: trainer_run_def trainable_parameter_set_def)
qed

theorem resume_restores_witness:
  "parse_args resume_options
     = Inr \<lparr> gpus = [-1], process = 1, prefetch = 64, resume = ''snapshot_iter_4'' \<rparr>
   \<and> example_files ''snapshot_iter_4'' = Some example_snapshot
   \<and> \<not> isl (main resume_options example_params example_networks example_files)
   \<and> save_npz_trainer (projr (main resume_options example_params example_networks example_files))
       = Inr example_snapshot
   \<and> iteration (projr (main resume_options example_params example_networks example_files)) = 4
   \<and> epoch (projr (main resume_options example_params example_networks example_files)) = 2
   \<and> \<not> isl (trainer_run example_numerics 3
               (projr (main resume_options example_params example_networks example_files)))
   \<and> iteration (projr (trainer_run example_numerics 3
        (projr (main resume_options example_params example_networks example_files)))) = 7"
proof -
  note m = Inr_projr[OF main_resume]
  have f: "example_files (resume \<lparr> gpus = [-1], process = 1, prefetch = 64,
              resume = ''snapshot_iter_4'' \<rparr>) = Some example_snapshot"
    by (simp add: example_files_def)
  from resume_restores[OF parse_resume_options _ f m, of example_numerics 3] show ?thesis
    using parse_resume_options main_resume f by (auto simp: example_snapshot_def)
qed

subsection \<open>C6: evaluation\<close>

text \<open>
  C6. An evaluation pass leaves the optimizer and with it every parameter of the student
  as they were: it performs no optimizer step and changes the reported observation only.
\<close>

theorem evaluation_purity:
  assumes "run_extension nm (Evaluator device) tr = Inr tr'"
  shows "optimizer_main tr' = optimizer_main tr
       \<and> trainable_parameter_set tr' = trainable_parameter_set tr
       \<and> iteration tr' = iteration tr
       \<and> tr' = tr\<lparr>observation := observation tr'\<rparr>"
  using assms
  by (auto simp: evaluate_def trainable_parameter_set_def split: option.splits)

theorem evaluation_purity_witness:
  "run_extension example_numerics (Evaluator (-1))
       (projr (main no_options example_params example_networks no_files))
     = Inr ((projr (main no_options example_params example_networks no_files))
              \<lparr>observation := [(''validation/main/loss'', 0)]\<rparr>)
   \<and> trainable_parameter_set
        ((projr (main no_options example_params example_networks no_files))
              \<lparr>observation := [(''validation/main/loss'', 0)]\<rparr>)
       = trainable_parameter_set (projr (main no_options example_params example_networks no_files))"
proof -
  have e: "run_extension example_numerics (Evaluator (-1))
       (projr (main no_options example_params example_networks no_files))
     = Inr ((projr (main no_options example_params example_networks no_files))
              \<lparr>observation := [(''validation/main/loss'', 0)]\<rparr>)"
    by (simp add: example_defs build_defs evaluate_def example_numerics_def)
  from evaluation_purity[OF e] show ?thesis using e by simp
qed

subsection \<open>C8: a single negative device identifier\<close>

text \<open>
  C8. The claim: every device list that is a single negative identifier runs the program
  on the CPU, with the single-device updater. The script compares the list with
  \<^verbatim>\<open>[-1]\<close> (lines 35 and 103): with \<^verbatim>\<open>--gpus -2\<close> no CUDA device is selected, but the
  updater is a \<^verbatim>\<open>ParallelUpdater\<close> with the devices \<^verbatim>\<open>{'main': -2}\<close>, not the
  \<^verbatim>\<open>StandardUpdater\<close>.
\<close>

theorem single_negative_device_counterexample:
  "parse_args minus_two = Inr \<lparr> gpus = [-2], process = 1, prefetch = 64, resume = [] \<rparr>
   \<and> \<not> isl (main minus_two example_params example_networks no_files)
   \<and> updater_main (projr (main minus_two example_params example_networks no_files))
       = ParallelUpdater [(''main'', -2)]
   \<and> updater_main (projr (main minus_two example_params example_networks no_files))
       \<noteq> StandardUpdater"
  by (simp add: minus_two_def example_defs build_defs cuda_use_def)

text \<open>
  C8, amended. For every device list that is a single negative identifier no CUDA device
  is selected. For the list \<^verbatim>\<open>[-1]\<close> (the default) the script leaves the CUDA settings
  alone and uses the single-device \<^verbatim>\<open>StandardUpdater\<close>; for any other single negative
  identifier \<open>g\<close> it sets the CUDA workspace size and autotune and uses a
  \<^verbatim>\<open>ParallelUpdater\<close> whose only device is \<^verbatim>\<open>{'main': g}\<close>.
\<close>

theorem single_negative_device:
  assumes "parse_args cl = Inr a" and "gpus a = [g]" and "g < 0"
    and "main cl p n files = Inr tr"
  shows "current_device (config tr) = None
       \<and> (g = -1 \<longrightarrow> updater_main tr = StandardUpdater
             \<and> max_workspace_size (config tr) = None \<and> \<not> autotune (config tr))
       \<and> (g \<noteq> -1 \<longrightarrow> updater_main tr = ParallelUpdater [(''main'', g)]
             \<and> max_workspace_size (config tr) = Some (2 * 512 * 1024 * 1024)
             \<and> autotune (config tr))"
proof -
  from assms(1,4) obtain m opt its upd device where
    u: "make_updater a (configure a) = Inr upd" and
    r: "resume_trainer a files (make_trainer p opt its upd device) = Inr tr"
    by (auto elim!: main_Inr script_Inr)
  have t: "updater_main tr = fst upd" "config tr = snd upd"
    using resume_trainer_fields(5,6)[OF r] by (simp_all add: make_trainer_def)
  from u assms(2,3) have
    "upd = (if g = -1 then (StandardUpdater, configure a)
            else (ParallelUpdater [(''main'', g)], configure a))"
    by (auto simp: make_updater_def py_first_def device_names_def cuda_use_def)
  with t assms(2) show ?thesis
    by (auto simp: configure_def)
qed

theorem single_negative_device_witness:
  "parse_args minus_two = Inr \<lparr> gpus = [-2], process = 1, prefetch = 64, resume = [] \<rparr>
   \<and> (-2::int) < 0 \<and> (-2::int) \<noteq> -1
   \<and> \<not> isl (main minus_two example_params example_networks no_files)
   \<and> current_device (config (projr (main minus_two example_params example_networks no_files)))
       = None
   \<and> autotune (config (projr (main minus_two example_params example_networks no_files)))
   \<and> updater_main (projr (main minus_two example_params example_networks no_files))
       = ParallelUpdater [(''main'', -2)]"
proof -
  have p: "parse_args minus_two = Inr \<lparr> gpus = [-2], process = 1, prefetch = 64, resume = [] \<rparr>"
    by (simp add: parse_args_def minus_two_def)
  have n: "\<not> isl (main minus_two example_params example_networks no_files)"
    by (simp add: minus_two_def example_defs build_defs cuda_use_def)
  from single_negative_device[OF p _ _ Inr_projr[OF n], of "-2"] show ?thesis
    using p n by simp
qed

subsection \<open>C9: serial or multiprocess iterators\<close>



subsection \<open>C10: the batch size of the validation iterator\<close>

text \<open>
  C10. With \<open>D\<close> devices the validation iterator has the batch size
  \<^verbatim>\<open>params.batchsize // D\<close> and the training iterator the full \<^verbatim>\<open>params.batchsize\<close>;
  with one device the two are equal, and with more devices than the (non-negative) batch
  size the validation batch size is 0.
\<close>

theorem validation_batchsize:
  assumes "parse_args cl = Inr a" and "main cl p n files = Inr tr"
  shows "iter_batchsize (valid_iter tr) = batchsize p div int (length (gpus a))
       \<and> iter_batchsize (train_iter tr) = batchsize p
       \<and> (length (gpus a) = 1 \<longrightarrow> iter_batchsize (valid_iter tr) = iter_batchsize (train_iter tr))
       \<and> (0 \<le> batchsize p \<and> batchsize p < int (length (gpus a))
            \<longrightarrow> iter_batchsize (valid_iter tr) = 0)"
proof -
  from assms obtain m opt its upd device where
    i: "make_iterators p a = Inr its" and
    r: "resume_trainer a files (make_trainer p opt its upd device) = Inr tr"
    by (auto elim!: main_Inr script_Inr)
  have t: "train_iter tr = fst its" "valid_iter tr = snd its"
    using resume_trainer_fields(3,4)[OF r] by (simp_all add: make_trainer_def)
  have "iter_batchsize (snd its) = batchsize p div int (length (gpus a))
      \<and> iter_batchsize (fst its) = batchsize p"
    using i by (auto simp: make_iterators_def py_floordiv_def split: if_splits)
  with t show ?thesis by (simp add: div_pos_pos_trivial)
qed

theorem validation_batchsize_witness:
  "parse_args three_gpus = Inr \<lparr> gpus = [0, 1, 2], process = 1, prefetch = 64, resume = [] \<rparr>
   \<and> \<not> isl (main three_gpus example_params example_networks no_files)
   \<and> (0::int) \<le> 2 \<and> (2::int) < int (length [0::int, 1, 2])
   \<and> iter_batchsize (train_iter (projr (main three_gpus example_params example_networks no_files))) = 2
   \<and> iter_batchsize (valid_iter (projr (main three_gpus example_params example_networks no_files))) = 0"
proof -
  have p: "parse_args three_gpus = Inr \<lparr> gpus = [0, 1, 2], process = 1, prefetch = 64, resume = [] \<rparr>"
    by (simp add: parse_args_def three_gpus_def)
  note m = Inr_projr[OF main_three_gpus]
  from validation_batchsize[OF p m] show ?thesis
    using p main_three_gpus by (simp add: example_params_def)
qed

end
